theory Spec2Isabelle
  imports Main "HOL-Library.AList" "HOL-Library.List_Lexorder" "HOL-Library.Char_ord"
begin

section \<open>Python values and dictionaries\<close>

text \<open>
  The handlers of \<^verbatim>\<open>imbi/endpoints/components\<close> work on dictionaries of field
  values. A version range (\<^verbatim>\<open>imbi.semver.VersionRange\<close>) is represented by its
  range expression and compared structurally; \<open>PyObject\<close> is any other Python object,
  by its name. A dictionary is an association list in
  insertion order whose keys are pairwise distinct: \<open>map_of\<close> reads a key,
  \<open>AList.update\<close> assigns one (in place when the key exists, at the end otherwise)
  and \<open>AList.delete\<close> removes one.
\<close>

datatype VersionRange = VersionRange string

datatype pyval =
  PyNone | PyBool bool | PyInt int | PyStr string | PyRange VersionRange | PyObject string

type_synonym pydict = "(string \<times> pyval) list"

text \<open>Python's \<^verbatim>\<open>==\<close> on these values: \<^verbatim>\<open>True == 1\<close> and \<^verbatim>\<open>False == 0\<close> hold.\<close>

fun py_eq :: "pyval \<Rightarrow> pyval \<Rightarrow> bool" where
  "py_eq (PyBool b) (PyInt i) = (i = (if b then 1 else 0))"
| "py_eq (PyInt i) (PyBool b) = (i = (if b then 1 else 0))"
| "py_eq a b = (a = b)"

section \<open>Exceptions\<close>

text \<open>
  Every exception a handler can end with is a value. \<open>api_error\<close> lists the classes of
  \<^verbatim>\<open>imbi.errors\<close> that the handlers raise on purpose; the other constructors of
  \<open>exn\<close> are library exceptions that no handler catches.
\<close>

datatype jsonpatch_exn =
  InvalidJsonPatch | JsonPatchConflict | JsonPatchTestFailed | JsonPointerException

datatype pg_exn = ForeignKeyViolation | UniqueViolation | OtherPostgresError string

datatype api_error =
    ItemNotFound
  | BadJsonPatch jsonpatch_exn
  | BadRequest string "string list"
  | DatabaseError string "pg_exn option"

datatype exn =
    ApiError api_error
  | JsonPatchExn jsonpatch_exn
  | ValidationError "string list"
  | KeyError string
  | IndexError
  | PgExn pg_exn

section \<open>The project aggregate (imbi/models.py)\<close>

text \<open>
  The dataclasses of \<^verbatim>\<open>imbi/models.py\<close>, with timestamps as text and decimals as an
  unscaled value with its scale. \<open>_load\<close> returns no object when the query has no row,
  so a namespace or a project type of the aggregate can be absent.
\<close>

type_synonym datetime = string

type_synonym decimal = "int \<times> nat"

datatype fact_value =
    FactNone
  | FactBool bool
  | FactInt int
  | FactDecimal decimal
  | FactDate datetime
  | FactStr string

record Namespace =
  id' :: int
  created_at :: datetime
  created_by :: string
  last_modified_at :: string
  last_modified_by :: "datetime option"
  name :: string
  slug :: string
  icon_class :: string
  maintained_by :: "string list option"
  gitlab_group_name :: string
  sentry_team_slug :: "string option"
  pagerduty_policy :: "string option"
  aws_ssm_slug :: "string option"

record ProjectComponent =
  name :: string
  package_url :: string
  status :: string
  version :: string

record ProjectDependency =
  project_id :: int
  dependency_id :: int
  created_at :: datetime
  created_by :: string

record ProjectFact =
  id' :: int
  name :: string
  recorded_at :: datetime
  recorded_by :: string
  value' :: fact_value
  fact_type :: string
  data_type :: string
  description :: "string option"
  ui_options :: "string list option"
  score :: decimal
  weight :: int

record ProjectIdentifier =
  integration_name :: string
  external_id :: string
  created_at :: datetime
  created_by :: string

record ProjectType =
  id' :: int
  created_at :: datetime
  created_by :: string
  last_modified_at :: "string option"
  last_modified_by :: "datetime option"
  name :: string
  slug :: string
  plural_name :: string
  description :: "string option"
  icon_class :: "string option"
  environment_urls :: bool
  gitlab_project_prefix :: "string option"

record ProjectLink =
  link_type_id :: int
  link_type :: string
  created_at :: datetime
  created_by :: string
  last_modified_at :: "string option"
  last_modified_by :: "datetime option"
  icon_class :: "string option"
  url :: string

record ProjectURL =
  environment :: string
  created_at :: datetime
  created_by :: string
  last_modified_at :: "string option"
  last_modified_by :: "datetime option"
  icon_class :: "string option"
  url :: string

record Project =
  id' :: int
  created_at :: datetime
  created_by :: string
  last_modified_at :: "datetime option"
  last_modified_by :: "string option"
  namespace :: "Namespace option"
  project_type :: "ProjectType option"
  name :: string
  slug :: string
  description :: "string option"
  environments :: "string list option"
  archived :: bool
  gitlab_project_id :: "int option"
  sentry_project_slug :: "string option"
  sonarqube_project_key :: "string option"
  pagerduty_service_id :: "string option"
  facts :: "(string \<times> fact_value) list"
  identifiers :: "(string \<times> string) list"
  links :: "(string \<times> string) list"
  urls :: "(string \<times> string) list"
  project_score :: int
  components :: "(string \<times> string) list list"
  component_versions :: "string list"
  dependencies :: "int list option"

text \<open>The row that \<^verbatim>\<open>Project.SQL\<close> selects.\<close>

record project_row =
  row_id :: int
  row_created_at :: datetime
  row_created_by :: string
  row_last_modified_at :: "datetime option"
  row_last_modified_by :: "string option"
  row_namespace_id :: int
  row_project_type_id :: int
  row_name :: string
  row_slug :: string
  row_description :: "string option"
  row_environments :: "string list option"
  row_archived :: bool
  row_gitlab_project_id :: "int option"
  row_sentry_project_slug :: "string option"
  row_sonarqube_project_key :: "string option"
  row_pagerduty_service_id :: "string option"
  row_project_score :: int

text \<open>
  The application as the loaders see it: what the connector's \<^verbatim>\<open>execute\<close> gives for
  each statement, a store error (\<open>Inl\<close>) or the rows, and \<^verbatim>\<open>common.coerce_project_fact\<close>
  (\<open>None\<close> for its \<^verbatim>\<open>ValueError\<close>).
\<close>

record application =
  Project_SQL :: "int \<Rightarrow> pg_exn + project_row option"
  Namespace_SQL :: "int \<Rightarrow> pg_exn + Namespace option"
  ProjectType_SQL :: "int \<Rightarrow> pg_exn + ProjectType option"
  ProjectFact_COLLECTION_SQL :: "int \<Rightarrow> pg_exn + ProjectFact list"
  ProjectLink_COLLECTION_SQL :: "int \<Rightarrow> pg_exn + ProjectLink list"
  ProjectURL_COLLECTION_SQL :: "int \<Rightarrow> pg_exn + ProjectURL list"
  ProjectIdentifier_COLLECTION_SQL :: "int \<Rightarrow> pg_exn + ProjectIdentifier list"
  ProjectComponent_COLLECTION_SQL :: "int \<Rightarrow> pg_exn + ProjectComponent list"
  ProjectDependency_COLLECTION_SQL :: "int \<Rightarrow> pg_exn + ProjectDependency list"
  coerce_project_fact :: "string \<Rightarrow> fact_value \<Rightarrow> fact_value option"

text \<open>Python's \<^verbatim>\<open>str\<close> of an integer, for the messages.\<close>

fun str_nat :: "nat \<Rightarrow> string" where
  "str_nat n =
     (if n < 10 then [''0123456789'' ! n]
      else str_nat (n div 10) @ [''0123456789'' ! (n mod 10)])"

definition str_int :: "int \<Rightarrow> string" where
  "str_int i = (if i < 0 then CHR ''-'' # str_nat (nat (- i)) else str_nat (nat i))"

text \<open>
  \<^verbatim>\<open>_load\<close> and \<^verbatim>\<open>_load_collection\<close>: a store error is raised as
  \<^verbatim>\<open>errors.DatabaseError\<close>. The model is a class, so \<^verbatim>\<open>model.__class__.__name__\<close> in
  the message is \<^verbatim>\<open>type\<close>.
\<close>

definition load :: "pg_exn + 'a option \<Rightarrow> exn + 'a option" where
  "load result =
     (case result of
        Inl exc \<Rightarrow> Inl (ApiError (DatabaseError ''Error loading type'' (Some exc)))
      | Inr row \<Rightarrow> Inr row)"

definition load_collection :: "int \<Rightarrow> pg_exn + 'a list \<Rightarrow> exn + 'a list" where
  "load_collection obj_id result =
     (case result of
        Inl exc \<Rightarrow>
          Inl (ApiError (DatabaseError (''Error loading type collection for '' @ str_int obj_id)
                           (Some exc)))
      | Inr rows \<Rightarrow> Inr rows)"

definition ProjectFact_post_init :: "application \<Rightarrow> ProjectFact \<Rightarrow> ProjectFact" where
  "ProjectFact_post_init app self =
     (case coerce_project_fact app (data_type self) (value' self) of
        None \<Rightarrow> self
      | Some v \<Rightarrow> self\<lparr>value' := v\<rparr>)"

definition namespace_load :: "int \<Rightarrow> application \<Rightarrow> exn + Namespace option" where
  "namespace_load namespace_id app = load (Namespace_SQL app namespace_id)"

definition project_type_load :: "int \<Rightarrow> application \<Rightarrow> exn + ProjectType option" where
  "project_type_load project_type_id app = load (ProjectType_SQL app project_type_id)"

definition project_facts :: "int \<Rightarrow> application \<Rightarrow> exn + ProjectFact list" where
  "project_facts pid app =
     load_collection pid
       (map_sum (\<lambda>e. e) (map (ProjectFact_post_init app)) (ProjectFact_COLLECTION_SQL app pid))"

definition project_links :: "int \<Rightarrow> application \<Rightarrow> exn + ProjectLink list" where
  "project_links pid app = load_collection pid (ProjectLink_COLLECTION_SQL app pid)"

definition project_urls :: "int \<Rightarrow> application \<Rightarrow> exn + ProjectURL list" where
  "project_urls pid app = load_collection pid (ProjectURL_COLLECTION_SQL app pid)"

definition project_identifiers :: "int \<Rightarrow> application \<Rightarrow> exn + ProjectIdentifier list" where
  "project_identifiers pid app =
     load_collection pid (ProjectIdentifier_COLLECTION_SQL app pid)"

definition project_components :: "int \<Rightarrow> application \<Rightarrow> exn + ProjectComponent list" where
  "project_components pid app =
     load_collection pid (ProjectComponent_COLLECTION_SQL app pid)"

definition project_dependencies :: "int \<Rightarrow> application \<Rightarrow> exn + ProjectDependency list" where
  "project_dependencies pid app =
     load_collection pid (ProjectDependency_COLLECTION_SQL app pid)"

text \<open>
  \<^verbatim>\<open>asyncio.gather\<close> of the eight sub-loads raises the exception of the sub-load that
  fails first. \<open>completion\<close> lists the sub-loads (by position, from 0) in the order in
  which they finish; a sub-load it leaves out finishes after the listed ones, in the
  order of the arguments.
\<close>

definition failure :: "exn + 'a \<Rightarrow> exn option" where
  "failure r = (case r of Inl e \<Rightarrow> Some e | Inr x \<Rightarrow> None)"

definition first_failure :: "nat list \<Rightarrow> exn option list \<Rightarrow> exn option" where
  "first_failure completion failures =
     (case filter (\<lambda>i. i < length failures \<and> failures ! i \<noteq> None) completion of
        [] \<Rightarrow> None
      | i # rest \<Rightarrow> failures ! i)"

text \<open>A dict comprehension: a later item replaces an earlier one with the same key.\<close>

definition dict_of :: "('k \<times> 'v) list \<Rightarrow> ('k \<times> 'v) list" where
  "dict_of items = foldl (\<lambda>d (k, v). AList.update k v d) [] items"

definition sub_load_failures :: "int \<Rightarrow> project_row \<Rightarrow> application \<Rightarrow> exn option list" where
  "sub_load_failures pid values' app =
     [failure (namespace_load (row_namespace_id values') app),
      failure (project_type_load (row_project_type_id values') app),
      failure (project_facts pid app),
      failure (project_links pid app),
      failure (project_urls pid app),
      failure (project_identifiers pid app),
      failure (project_components pid app),
      failure (project_dependencies pid app)]"

definition assemble ::
  "project_row \<Rightarrow> Namespace option \<Rightarrow> ProjectType option \<Rightarrow> ProjectFact list \<Rightarrow> ProjectLink list
     \<Rightarrow> ProjectURL list \<Rightarrow> ProjectIdentifier list \<Rightarrow> ProjectComponent list
     \<Rightarrow> ProjectDependency list \<Rightarrow> Project" where
  "assemble values' r0 r1 r2 r3 r4 r5 r6 r7 =
     \<lparr>id' = row_id values',
      created_at = row_created_at values',
      created_by = row_created_by values',
      last_modified_at = row_last_modified_at values',
      last_modified_by = row_last_modified_by values',
      namespace = r0,
      project_type = r1,
      name = row_name values',
      slug = row_slug values',
      description = row_description values',
      environments = row_environments values',
      archived = row_archived values',
      gitlab_project_id = row_gitlab_project_id values',
      sentry_project_slug = row_sentry_project_slug values',
      sonarqube_project_key = row_sonarqube_project_key values',
      pagerduty_service_id = row_pagerduty_service_id values',
      facts = dict_of (map (\<lambda>v. (ProjectFact.name v, value' v)) r2),
      identifiers = dict_of (map (\<lambda>v. (integration_name v, external_id v)) r5),
      links = dict_of (map (\<lambda>v. (link_type v, ProjectLink.url v)) r3),
      urls = dict_of (map (\<lambda>v. (environment v, ProjectURL.url v)) r4),
      project_score = row_project_score values',
      components =
        map (\<lambda>c. [(''name'', ProjectComponent.package_url c), (''version'', version c)]) r6,
      component_versions = map (\<lambda>c. ProjectComponent.package_url c @ ''@'' @ version c) r6,
      dependencies = Some (map dependency_id r7)\<rparr>"

text \<open>
  \<^verbatim>\<open>project\<close>: the root row first; without one the function returns no project
  (\<open>Inr None\<close>, which the callers report as not found). Otherwise the eight sub-loads
  are gathered: a failure among them is raised, and only when none failed is the
  aggregate assembled.
\<close>

definition project :: "int \<Rightarrow> application \<Rightarrow> nat list \<Rightarrow> exn + Project option" where
  "project pid app completion =
     (case Project_SQL app pid of
        Inl exc \<Rightarrow>
          Inl (ApiError (DatabaseError (''Error loading Project '' @ str_int pid) (Some exc)))
      | Inr None \<Rightarrow> Inr None
      | Inr (Some values') \<Rightarrow>
          (case first_failure completion (sub_load_failures pid values' app) of
             Some e \<Rightarrow> Inl e
           | None \<Rightarrow>
               (case namespace_load (row_namespace_id values') app of Inl e \<Rightarrow> Inl e | Inr r0 \<Rightarrow>
                case project_type_load (row_project_type_id values') app of Inl e \<Rightarrow> Inl e | Inr r1 \<Rightarrow>
                case project_facts pid app of Inl e \<Rightarrow> Inl e | Inr r2 \<Rightarrow>
                case project_links pid app of Inl e \<Rightarrow> Inl e | Inr r3 \<Rightarrow>
                case project_urls pid app of Inl e \<Rightarrow> Inl e | Inr r4 \<Rightarrow>
                case project_identifiers pid app of Inl e \<Rightarrow> Inl e | Inr r5 \<Rightarrow>
                case project_components pid app of Inl e \<Rightarrow> Inl e | Inr r6 \<Rightarrow>
                case project_dependencies pid app of Inl e \<Rightarrow> Inl e | Inr r7 \<Rightarrow>
                  Inr (Some (assemble values' r0 r1 r2 r3 r4 r5 r6 r7)))))"

text \<open>An application with one project, 7, whose links query is a parameter.\<close>

definition example_project_row :: project_row where
  "example_project_row =
     \<lparr>row_id = 7, row_created_at = ''2024-01-01'', row_created_by = ''alice'',
      row_last_modified_at = None, row_last_modified_by = None,
      row_namespace_id = 1, row_project_type_id = 2,
      row_name = ''imbi'', row_slug = ''imbi'', row_description = None,
      row_environments = None, row_archived = False, row_gitlab_project_id = None,
      row_sentry_project_slug = None, row_sonarqube_project_key = None,
      row_pagerduty_service_id = None, row_project_score = 90\<rparr>"

definition example_application :: "pg_exn + ProjectLink list \<Rightarrow> application" where
  "example_application links_result =
     \<lparr>Project_SQL = (\<lambda>i. if i = 7 then Inr (Some example_project_row) else Inr None),
      Namespace_SQL = (\<lambda>i. Inr None),
      ProjectType_SQL = (\<lambda>i. Inr None),
      ProjectFact_COLLECTION_SQL = (\<lambda>i. Inr []),
      ProjectLink_COLLECTION_SQL = (\<lambda>i. links_result),
      ProjectURL_COLLECTION_SQL = (\<lambda>i. Inr []),
      ProjectIdentifier_COLLECTION_SQL = (\<lambda>i. Inr []),
      ProjectComponent_COLLECTION_SQL =
        (\<lambda>i. Inr [\<lparr>ProjectComponent.name = ''foo'', package_url = ''pkg:generic/foo'',
                     status = ''Active'', version = ''1.0''\<rparr>]),
      ProjectDependency_COLLECTION_SQL = (\<lambda>i. Inr []),
      coerce_project_fact = (\<lambda>t v. Some v)\<rparr>"

section \<open>The component model\<close>

datatype ComponentStatus = ACTIVE | DEPRECATED | FORBIDDEN

fun status_value :: "ComponentStatus \<Rightarrow> string" where
  "status_value ACTIVE = ''Active''"
| "status_value DEPRECATED = ''Deprecated''"
| "status_value FORBIDDEN = ''Forbidden''"

text \<open>
  \<^verbatim>\<open>class Component\<close>. The class gives \<open>package_url\<close> a default
  (\<^verbatim>\<open>package_url: str = pydantic.constr(pattern=r'^pkg:')\<close>), which is not a string, so
  the field of a validated component is a Python value.
\<close>

record Component =
  package_url :: pyval
  name :: string
  status :: ComponentStatus
  icon_class :: string
  active_version :: "VersionRange option"
  home_page :: "string option"

section \<open>The store\<close>

text \<open>
  The relational store as the handlers see it: the rows of \<^verbatim>\<open>v1.components\<close>,
  \<^verbatim>\<open>v1.component_versions\<close> and \<^verbatim>\<open>v1.project_components\<close>, the component score
  recorded for each project (the project fact that the score recomputation upserts), and
  the clock behind \<^verbatim>\<open>CURRENT_TIMESTAMP\<close>. A statement compares the text of a key
  column with the Python value it is given as a parameter. The key column \<open>package_url\<close> is text and unique; the other
  columns hold the value that was written.
\<close>

record component_row =
  col_package_url :: string
  col_name :: pyval
  col_status :: pyval
  col_home_page :: pyval
  col_icon_class :: pyval
  col_active_version :: pyval
  col_created_at :: pyval
  col_created_by :: pyval
  col_last_modified_at :: pyval
  col_last_modified_by :: pyval

record component_version_row =
  cv_id :: int
  cv_package_url :: string
  cv_version :: string

record project_component_row =
  pc_project_id :: int
  pc_version_id :: int
  pc_package_url :: string

record database =
  v1_components :: "component_row list"
  v1_component_versions :: "component_version_row list"
  v1_project_components :: "project_component_row list"
  v1_project_facts :: "(int \<times> pyval) list"
  clock :: int

text \<open>
  What a request leaves behind besides the store: the statements it executed (by metric
  name), the calls of the score recomputation and the log lines.
\<close>

datatype event =
    Executed string
  | ScoreCall int
  | LogInfo nat
  | LogWarning int

record world =
  db :: database
  trace :: "event list"

definition record_event :: "event \<Rightarrow> world \<Rightarrow> world" where
  "record_event ev w = w\<lparr>trace := trace w @ [ev]\<rparr>"

text \<open>\<^verbatim>\<open>RecordRequestHandler.GET_SQL\<close>: the row with the given key, as a dictionary of
  the selected columns.\<close>

definition row_dict :: "component_row \<Rightarrow> pydict" where
  "row_dict r =
     [(''package_url'', PyStr (col_package_url r)),
      (''name'', col_name r),
      (''status'', col_status r),
      (''home_page'', col_home_page r),
      (''icon_class'', col_icon_class r),
      (''active_version'', col_active_version r),
      (''created_at'', col_created_at r),
      (''created_by'', col_created_by r),
      (''last_modified_at'', col_last_modified_at r),
      (''last_modified_by'', col_last_modified_by r)]"

definition GET_SQL :: "database \<Rightarrow> pyval \<Rightarrow> pydict option" where
  "GET_SQL d key =
     map_option row_dict (find (\<lambda>r. PyStr (col_package_url r) = key) (v1_components d))"

text \<open>
  \<^verbatim>\<open>RecordRequestHandler.PATCH_SQL\<close>, executed with a dictionary of parameters. A
  parameter the statement names and the dictionary lacks is a \<open>KeyError\<close>. The row whose
  key equals \<open>current_package_url\<close> gets the six data columns from the parameters,
  \<open>last_modified_at\<close> from the clock and \<open>last_modified_by\<close> from \<open>username\<close>. The
  result is the number of rows affected. A key that is not text, or that another row
  already has, is refused by the store.
\<close>

definition PATCH_SQL_params :: "string list" where
  "PATCH_SQL_params =
     [''package_url'', ''name'', ''status'', ''home_page'', ''icon_class'',
      ''active_version'', ''username'', ''current_package_url'']"

definition set_columns :: "pydict \<Rightarrow> string \<Rightarrow> int \<Rightarrow> component_row \<Rightarrow> component_row" where
  "set_columns params new_key now r =
     r\<lparr>col_package_url := new_key,
       col_name := the (map_of params ''name''),
       col_status := the (map_of params ''status''),
       col_home_page := the (map_of params ''home_page''),
       col_icon_class := the (map_of params ''icon_class''),
       col_active_version := the (map_of params ''active_version''),
       col_last_modified_at := PyInt now,
       col_last_modified_by := the (map_of params ''username'')\<rparr>"

definition PATCH_SQL :: "pydict \<Rightarrow> database \<Rightarrow> exn + (nat \<times> database)" where
  "PATCH_SQL params d =
     (case find (\<lambda>k. map_of params k = None) PATCH_SQL_params of
        Some k \<Rightarrow> Inl (KeyError k)
      | None \<Rightarrow>
         (case map_of params ''current_package_url'' of
            Some (PyStr current) \<Rightarrow>
              (if current \<notin> col_package_url ` set (v1_components d) then Inr (0, d)
               else
                 (case map_of params ''package_url'' of
                    Some (PyStr new_key) \<Rightarrow>
                      (if new_key \<noteq> current \<and> new_key \<in> col_package_url ` set (v1_components d)
                       then Inl (PgExn UniqueViolation)
                       else Inr (length (filter (\<lambda>r. col_package_url r = current) (v1_components d)),
                                 d\<lparr>v1_components :=
                                     map (\<lambda>r. if col_package_url r = current
                                              then set_columns params new_key (clock d) r else r)
                                       (v1_components d)\<rparr>))
                  | _ \<Rightarrow> Inl (PgExn (OtherPostgresError ''package_url''))))
          | _ \<Rightarrow> Inr (0, d)))"

text \<open>The query of \<^verbatim>\<open>_update_affected_projects\<close>:
  \<^verbatim>\<open>SELECT DISTINCT project_id FROM v1.project_components WHERE package_url = ...\<close>.
  The statement has no \<^verbatim>\<open>ORDER BY\<close>: the order of its rows is the store's choice. The
  handler uses the rows only through the set it builds from them (\<open>iterate_set\<close>
  below), their number and whether there is one, so no result depends on the order
  written here.\<close>

definition retrieve_affected_projects :: "database \<Rightarrow> pyval \<Rightarrow> int list" where
  "retrieve_affected_projects d key =
     remdups (map pc_project_id
                (filter (\<lambda>r. PyStr (pc_package_url r) = key) (v1_project_components d)))"

section \<open>Collaborators of the handlers\<close>

text \<open>
  The libraries and modules the handlers call and this development does not contain are
  parameters, so every theorem holds whatever they compute:
  \<^item> \<open>JsonPatch\<close> is the constructor \<^verbatim>\<open>jsonpatch.JsonPatch(body)\<close>: it raises, or returns
    the patch object, given by its \<^verbatim>\<open>apply\<close> method (which raises or returns the
    patched copy of a dictionary);
  \<^item> \<open>model_validate\<close> is \<^verbatim>\<open>Component.model_validate\<close>: the validated component, or
    the messages of the \<^verbatim>\<open>pydantic.ValidationError\<close>, first violation first;
  \<^item> \<open>model_dump\<close> is \<^verbatim>\<open>Component.model_dump\<close>;
  \<^item> \<open>update_component_score_for_project\<close> is the function of that name of
    \<^verbatim>\<open>imbi.endpoints.components.scoring\<close>: it works on the store and may end with an
    exception;
  \<^item> \<open>handler_on_postgres_error\<close> is \<^verbatim>\<open>self.on_postgres_error\<close> of the base request
    handler: the exception a failed statement ends with;
  \<^item> \<open>set_iteration\<close> is the order in which Python iterates a set of integers, which
    the language leaves open: it is given the members in ascending order and lists them
    in the order of iteration.
\<close>

record 'b collaborators =
  JsonPatch :: "'b \<Rightarrow> jsonpatch_exn + (pydict \<Rightarrow> jsonpatch_exn + pydict)"
  model_validate :: "pydict \<Rightarrow> string list + Component"
  model_dump :: "Component \<Rightarrow> pydict"
  update_component_score_for_project :: "int \<Rightarrow> database \<Rightarrow> exn option \<times> database"
  handler_on_postgres_error :: "pg_exn \<Rightarrow> exn"
  set_iteration :: "int list \<Rightarrow> int list"

text \<open>The application settings: \<^verbatim>\<open>settings['components']\<close> is absent, null or a
  dictionary.\<close>

datatype config = ConfigNone | ConfigDict pydict

type_synonym settings = "(string \<times> config) list"

section \<open>RecordRequestHandler\<close>

text \<open>\<^verbatim>\<open>all(original_dict[k] == updated_dict[k] for k in updated_dict)\<close>: the keys of the
  patched dictionary in order, stopping at the first difference; a key the original
  lacks is a \<open>KeyError\<close> (\<open>Inl\<close>).\<close>

fun all_unchanged :: "pydict \<Rightarrow> pydict \<Rightarrow> string + bool" where
  "all_unchanged original_dict [] = Inr True"
| "all_unchanged original_dict ((k, v) # rest) =
     (case map_of original_dict k of
        None \<Rightarrow> Inl k
      | Some v0 \<Rightarrow> if py_eq v0 v then all_unchanged original_dict rest else Inr False)"

text \<open>\<^verbatim>\<open>_project_update_required\<close>.\<close>

definition components_config :: "settings \<Rightarrow> pydict" where
  "components_config settings =
     (case map_of settings ''components'' of
        Some (ConfigDict config) \<Rightarrow> config
      | _ \<Rightarrow> [])"

definition project_fact_type_id_configured :: "settings \<Rightarrow> bool" where
  "project_fact_type_id_configured settings =
     (case map_of (components_config settings) ''project_fact_type_id'' of
        None \<Rightarrow> False
      | Some PyNone \<Rightarrow> False
      | Some _ \<Rightarrow> True)"

definition project_update_required :: "settings \<Rightarrow> Component \<Rightarrow> Component \<Rightarrow> bool" where
  "project_update_required settings original updated =
     (if project_fact_type_id_configured settings then
        (if status updated \<noteq> status original then True
         else if status updated = ACTIVE \<and> active_version updated \<noteq> active_version original
         then True
         else False)
      else False)"

text \<open>
  \<^verbatim>\<open>_update_affected_projects\<close>. The local \<^verbatim>\<open>on_postgres_error\<close> lets a foreign key
  violation through as it is and hands every other store error to the handler's own
  callback. The loop runs over the distinct project ids; a foreign key violation is
  logged and the loop goes on, any other exception ends it.
\<close>

definition on_postgres_error :: "'b collaborators \<Rightarrow> pg_exn \<Rightarrow> exn" where
  "on_postgres_error env exc =
     (if exc = ForeignKeyViolation then PgExn exc else handler_on_postgres_error env exc)"

definition connector_raises :: "'b collaborators \<Rightarrow> exn \<Rightarrow> exn" where
  "connector_raises env exc = (case exc of PgExn e \<Rightarrow> on_postgres_error env e | _ \<Rightarrow> exc)"

fun update_scores :: "'b collaborators \<Rightarrow> int list \<Rightarrow> world \<Rightarrow> exn option \<times> world" where
  "update_scores env [] w = (None, w)"
| "update_scores env (pid # rest) w =
     (let w1 = record_event (ScoreCall pid) w
      in case update_component_score_for_project env pid (db w1) of
           (None, d) \<Rightarrow> update_scores env rest (w1\<lparr>db := d\<rparr>)
         | (Some exc, d) \<Rightarrow>
             (if connector_raises env exc = PgExn ForeignKeyViolation
              then update_scores env rest (record_event (LogWarning pid) (w1\<lparr>db := d\<rparr>))
              else (Some (connector_raises env exc), w1\<lparr>db := d\<rparr>)))"

text \<open>
  \<^verbatim>\<open>{row['project_id'] for row in result}\<close> and the \<^verbatim>\<open>for\<close> loop over it: the members
  of the set, each once, in the order \<open>set_iteration\<close> gives. Whatever that parameter
  returns, a member it leaves out is iterated after the others and a value that is no
  member is ignored, so that every order of the members, and nothing else, can occur.
\<close>

definition iterate_set :: "'b collaborators \<Rightarrow> int list \<Rightarrow> int list" where
  "iterate_set env rows =
     (let members = sort (remdups rows);
          order = filter (\<lambda>p. p \<in> set members) (set_iteration env members)
      in rev (remdups (rev (order @ members))))"

definition update_affected_projects :: "'b collaborators \<Rightarrow> pyval \<Rightarrow> world \<Rightarrow> exn option \<times> world" where
  "update_affected_projects env key w =
     (let w1 = record_event (Executed ''retrieve-affected-projects'') w;
          result = retrieve_affected_projects (db w1) key
      in if result = [] then (None, w1)
         else
           (let project_ids = iterate_set env result
            in update_scores env project_ids (record_event (LogInfo (length project_ids)) w1)))"

text \<open>
  Modelled from the spec: the base handler's \<^verbatim>\<open>_get\<close> is not in the sources. It is the
  spec's \<^verbatim>\<open>getOne(id) -> Snapshot | NotFound\<close>: the record read back by its key.
\<close>

datatype response = NotModified | Ok pydict

definition get_record :: "pyval \<Rightarrow> world \<Rightarrow> (exn + response) \<times> world" where
  "get_record key w =
     (let w1 = record_event (Executed ''get-component'') w
      in case GET_SQL (db w1) key of
           None \<Rightarrow> (Inl (ApiError ItemNotFound), w1)
         | Some row \<Rightarrow> (Inr (Ok row), w1))"

text \<open>
  \<^verbatim>\<open>RecordRequestHandler.patch\<close>, in two parts: \<open>patch_persist\<close> is the second half of
  the method, from the validation of the patched dictionary on. Every store access is a
  suspension point; \<open>others\<close> is what other requests do to the store between the read
  of the record and the write (the identity when nothing runs in between).
\<close>

definition statement_params :: "string \<Rightarrow> Component \<Rightarrow> pydict \<Rightarrow> pydict" where
  "statement_params username original updated_dict =
     AList.update ''username'' (PyStr username)
       (AList.update ''current_package_url'' (package_url original) updated_dict)"

definition patch_persist ::
  "'b collaborators \<Rightarrow> settings \<Rightarrow> (database \<Rightarrow> database) \<Rightarrow> string \<Rightarrow> Component \<Rightarrow> pydict
     \<Rightarrow> world \<Rightarrow> (exn + response) \<times> world" where
  "patch_persist env settings others username original updated_dict w =
     (case model_validate env updated_dict of
        Inl all_errors \<Rightarrow>
          (case all_errors of
             [] \<Rightarrow> (Inl IndexError, w)
           | msg # _ \<Rightarrow> (Inl (ApiError (BadRequest msg all_errors)), w))
      | Inr updated \<Rightarrow>
          (let params = statement_params username original updated_dict;
               w1 = record_event (Executed ''patch-component'') (w\<lparr>db := others (db w)\<rparr>)
           in case PATCH_SQL params (db w1) of
                Inl (PgExn e) \<Rightarrow> (Inl (handler_on_postgres_error env e), w1)
              | Inl exc \<Rightarrow> (Inl exc, w1)
              | Inr (row_count, d) \<Rightarrow>
                  (if row_count = 0
                   then (Inl (ApiError (DatabaseError ''No rows were returned from PATCH_SQL'' None)),
                         w1\<lparr>db := d\<rparr>)
                   else
                     (case (if project_update_required settings original updated
                            then update_affected_projects env (package_url updated) (w1\<lparr>db := d\<rparr>)
                            else (None, w1\<lparr>db := d\<rparr>)) of
                        (Some exc, w2) \<Rightarrow> (Inl exc, w2)
                      | (None, w2) \<Rightarrow> get_record (package_url updated) w2))))"

definition patch ::
  "'b collaborators \<Rightarrow> settings \<Rightarrow> (database \<Rightarrow> database) \<Rightarrow> string \<Rightarrow> string \<Rightarrow> 'b
     \<Rightarrow> world \<Rightarrow> (exn + response) \<times> world" where
  "patch env settings others username key body w =
     (let w1 = record_event (Executed ''get-component'') w
      in case GET_SQL (db w1) (PyStr key) of
           None \<Rightarrow> (Inl (ApiError ItemNotFound), w1)
         | Some row \<Rightarrow>
             (case model_validate env row of
                Inl all_errors \<Rightarrow> (Inl (ValidationError all_errors), w1)
              | Inr original \<Rightarrow>
                  (let original_dict = model_dump env original
                   in case JsonPatch env body of
                        Inl error \<Rightarrow> (Inl (ApiError (BadJsonPatch error)), w1)
                      | Inr apply \<Rightarrow>
                          (case apply original_dict of
                             Inl error \<Rightarrow> (Inl (JsonPatchExn error), w1)
                           | Inr updated_dict \<Rightarrow>
                               (case all_unchanged original_dict updated_dict of
                                  Inl k \<Rightarrow> (Inl (KeyError k), w1)
                                | Inr True \<Rightarrow> (Inr NotModified, w1)
                                | Inr False \<Rightarrow>
                                    patch_persist env settings others username original
                                      updated_dict w1)))))"

text \<open>What a trace records: the statements executed, the projects rescored and the
  projects a warning was logged for, each in order.\<close>

fun executed :: "event list \<Rightarrow> string list" where
  "executed [] = []"
| "executed (Executed s # evs) = s # executed evs"
| "executed (ev # evs) = executed evs"

fun scored :: "event list \<Rightarrow> int list" where
  "scored [] = []"
| "scored (ScoreCall p # evs) = p # scored evs"
| "scored (ev # evs) = scored evs"

fun warned :: "event list \<Rightarrow> int list" where
  "warned [] = []"
| "warned (LogWarning p # evs) = p # warned evs"
| "warned (ev # evs) = warned evs"

text \<open>The comparison that \<open>all_unchanged\<close> makes, as a predicate: every field of the
  patched dictionary is a field of the original with an equal value.\<close>

definition every_field_equal :: "pydict \<Rightarrow> pydict \<Rightarrow> bool" where
  "every_field_equal original_dict updated_dict =
     list_all (\<lambda>(k, v). case map_of original_dict k of None \<Rightarrow> False | Some v0 \<Rightarrow> py_eq v0 v)
       updated_dict"

fun is_updated :: "exn + response \<Rightarrow> bool" where
  "is_updated (Inr (Ok r)) = True"
| "is_updated r = False"

text \<open>The outcomes of a score recomputation that the loop of
  \<^verbatim>\<open>_update_affected_projects\<close> goes on after: no exception, or a foreign key
  violation.\<close>

definition tolerated :: "exn option \<Rightarrow> bool" where
  "tolerated outcome = (outcome = None \<or> outcome = Some (PgExn ForeignKeyViolation))"

text \<open>
  Modelled from the spec: \<^verbatim>\<open>imbi.errors\<close> is not in the sources. Section 7 of the spec
  sorts the errors into not found, client errors (a bad patch, a failed validation), a
  conflict signal and server errors (a failed store access). \<^verbatim>\<open>errors.DatabaseError\<close> is
  the class that \<^verbatim>\<open>imbi/models.py\<close> raises when a query fails, a server error.
\<close>

datatype error_kind = NotFoundError | ClientError | ConflictSignal | ServerError

fun kind_of :: "api_error \<Rightarrow> error_kind" where
  "kind_of ItemNotFound = NotFoundError"
| "kind_of (BadJsonPatch e) = ClientError"
| "kind_of (BadRequest msg msgs) = ClientError"
| "kind_of (DatabaseError msg e) = ServerError"

section \<open>An instance of the collaborators\<close>

text \<open>
  A concrete JSON Patch, validation and scoring, for evaluating the handlers on examples.

  The patch document is a list of operations on top-level members: \<open>Operation op
  member from value\<close> stands for the object with \<^verbatim>\<open>"op"\<close>, \<^verbatim>\<open>"path": "/member"\<close> and the
  optional \<^verbatim>\<open>"from": "/member"\<close> and \<^verbatim>\<open>"value"\<close>. As in the jsonpatch library, the
  constructor refuses an unknown operation name; everything else is found when the patch
  is applied: a missing \<^verbatim>\<open>value\<close> or \<^verbatim>\<open>from\<close>, a member that does not exist (a conflict)
  and a \<^verbatim>\<open>test\<close> that fails.
\<close>

datatype operation = Operation string string "string option" "pyval option"

fun op_name :: "operation \<Rightarrow> string" where
  "op_name (Operation opn member from_member v) = opn"

definition known_operations :: "string list" where
  "known_operations = [''remove'', ''add'', ''replace'', ''move'', ''test'', ''copy'']"

fun apply_operation :: "operation \<Rightarrow> pydict \<Rightarrow> jsonpatch_exn + pydict" where
  "apply_operation (Operation opn member from_member v) obj =
     (if opn = ''add'' then
        (case v of
           None \<Rightarrow> Inl InvalidJsonPatch
         | Some x \<Rightarrow> Inr (AList.update member x obj))
      else if opn = ''remove'' then
        (case map_of obj member of
           None \<Rightarrow> Inl JsonPatchConflict
         | Some x \<Rightarrow> Inr (AList.delete member obj))
      else if opn = ''replace'' then
        (case v of
           None \<Rightarrow> Inl InvalidJsonPatch
         | Some x \<Rightarrow>
             (case map_of obj member of
                None \<Rightarrow> Inl JsonPatchConflict
              | Some y \<Rightarrow> Inr (AList.update member x obj)))
      else if opn = ''move'' then
        (case from_member of
           None \<Rightarrow> Inl InvalidJsonPatch
         | Some f \<Rightarrow>
             (case map_of obj f of
                None \<Rightarrow> Inl JsonPatchConflict
              | Some x \<Rightarrow>
                  if f = member then Inr obj
                  else Inr (AList.update member x (AList.delete f obj))))
      else if opn = ''copy'' then
        (case from_member of
           None \<Rightarrow> Inl InvalidJsonPatch
         | Some f \<Rightarrow>
             (case map_of obj f of
                None \<Rightarrow> Inl JsonPatchConflict
              | Some x \<Rightarrow> Inr (AList.update member x obj)))
      else if opn = ''test'' then
        (case map_of obj member of
           None \<Rightarrow> Inl JsonPatchTestFailed
         | Some x \<Rightarrow>
             (case v of
                None \<Rightarrow> Inl InvalidJsonPatch
              | Some y \<Rightarrow> if py_eq x y then Inr obj else Inl JsonPatchTestFailed))
      else Inl InvalidJsonPatch)"

fun apply_operations :: "operation list \<Rightarrow> pydict \<Rightarrow> jsonpatch_exn + pydict" where
  "apply_operations [] obj = Inr obj"
| "apply_operations (operation # rest) obj =
     (case apply_operation operation obj of
        Inl error \<Rightarrow> Inl error
      | Inr obj' \<Rightarrow> apply_operations rest obj')"

definition JsonPatch_members ::
  "operation list \<Rightarrow> jsonpatch_exn + (pydict \<Rightarrow> jsonpatch_exn + pydict)" where
  "JsonPatch_members body =
     (if list_all (\<lambda>operation. op_name operation \<in> set known_operations) body
      then Inr (apply_operations body)
      else Inl InvalidJsonPatch)"

text \<open>
  Validation after the declaration of \<^verbatim>\<open>class Component\<close>: fields in the order of the
  class, one message per violated field, members the class does not declare ignored.
  A missing \<open>package_url\<close> takes the declared default, the constrained string type
  itself; the pattern of that type is never applied to a value.
\<close>

definition str_field :: "pydict \<Rightarrow> string \<Rightarrow> string + string" where
  "str_field d k =
     (case map_of d k of
        None \<Rightarrow> Inl ''Field required''
      | Some (PyStr s) \<Rightarrow> Inr s
      | Some _ \<Rightarrow> Inl ''Input should be a valid string'')"

definition opt_str_field :: "pydict \<Rightarrow> string \<Rightarrow> string + string option" where
  "opt_str_field d k =
     (case map_of d k of
        None \<Rightarrow> Inl ''Field required''
      | Some PyNone \<Rightarrow> Inr None
      | Some (PyStr s) \<Rightarrow> Inr (Some s)
      | Some _ \<Rightarrow> Inl ''Input should be a valid string'')"

text \<open>The message for a value that is no member of the enumeration:
  \<^verbatim>\<open>Input should be 'Active', 'Deprecated' or 'Forbidden'\<close>.\<close>

definition not_a_status :: string where
  "not_a_status = ''Input should be 'Active', 'Deprecated' or 'Forbidden'' @ [CHR 0x27]"

definition status_field :: "pydict \<Rightarrow> string \<Rightarrow> string + ComponentStatus" where
  "status_field d k =
     (case map_of d k of
        None \<Rightarrow> Inl ''Field required''
      | Some (PyStr s) \<Rightarrow>
          (if s = ''Active'' then Inr ACTIVE
           else if s = ''Deprecated'' then Inr DEPRECATED
           else if s = ''Forbidden'' then Inr FORBIDDEN
           else Inl not_a_status)
      | Some _ \<Rightarrow> Inl not_a_status)"

definition range_field :: "pydict \<Rightarrow> string \<Rightarrow> string + VersionRange option" where
  "range_field d k =
     (case map_of d k of
        None \<Rightarrow> Inl ''Field required''
      | Some PyNone \<Rightarrow> Inr None
      | Some (PyRange r) \<Rightarrow> Inr (Some r)
      | Some (PyStr s) \<Rightarrow> Inr (Some (VersionRange s))
      | Some _ \<Rightarrow> Inl ''Input should be a version range'')"

definition package_url_field :: "pydict \<Rightarrow> string + pyval" where
  "package_url_field d =
     (case map_of d ''package_url'' of
        None \<Rightarrow> Inr (PyObject ''pydantic.constr(pattern=r'^pkg:')'')
      | Some (PyStr s) \<Rightarrow> Inr (PyStr s)
      | Some _ \<Rightarrow> Inl ''Input should be a valid string'')"

definition violations :: "pydict \<Rightarrow> string list" where
  "violations d =
     (case package_url_field d of Inl m \<Rightarrow> [m] | Inr x \<Rightarrow> []) @
     (case str_field d ''name'' of Inl m \<Rightarrow> [m] | Inr x \<Rightarrow> []) @
     (case status_field d ''status'' of Inl m \<Rightarrow> [m] | Inr x \<Rightarrow> []) @
     (case str_field d ''icon_class'' of Inl m \<Rightarrow> [m] | Inr x \<Rightarrow> []) @
     (case range_field d ''active_version'' of Inl m \<Rightarrow> [m] | Inr x \<Rightarrow> []) @
     (case opt_str_field d ''home_page'' of Inl m \<Rightarrow> [m] | Inr x \<Rightarrow> [])"

definition Component_model_validate :: "pydict \<Rightarrow> string list + Component" where
  "Component_model_validate d =
     (case (package_url_field d, str_field d ''name'', status_field d ''status'',
            str_field d ''icon_class'', range_field d ''active_version'',
            opt_str_field d ''home_page'') of
        (Inr p, Inr n, Inr s, Inr i, Inr a, Inr h) \<Rightarrow>
          Inr \<lparr>package_url = p, name = n, status = s, icon_class = i, active_version = a,
               home_page = h\<rparr>
      | _ \<Rightarrow> Inl (violations d))"

definition Component_model_dump :: "Component \<Rightarrow> pydict" where
  "Component_model_dump c =
     [(''package_url'', package_url c),
      (''name'', PyStr (name c)),
      (''status'', PyStr (status_value (status c))),
      (''icon_class'', PyStr (icon_class c)),
      (''active_version'', (case active_version c of None \<Rightarrow> PyNone | Some r \<Rightarrow> PyRange r)),
      (''home_page'', (case home_page c of None \<Rightarrow> PyNone | Some h \<Rightarrow> PyStr h))]"

text \<open>Scoring that fails for the listed projects with the listed exception, changing
  nothing, and records the score 100 as the project's fact for every other project.\<close>

definition scoring_failing ::
  "(int \<times> exn) list \<Rightarrow> int \<Rightarrow> database \<Rightarrow> exn option \<times> database" where
  "scoring_failing failures pid d =
     (case map_of failures pid of
        Some exc \<Rightarrow> (Some exc, d)
      | None \<Rightarrow> (None, d\<lparr>v1_project_facts := AList.update pid (PyInt 100) (v1_project_facts d)\<rparr>))"

definition example_env :: "(int \<times> exn) list \<Rightarrow> (operation list) collaborators" where
  "example_env failures =
     \<lparr>JsonPatch = JsonPatch_members,
      model_validate = Component_model_validate,
      model_dump = Component_model_dump,
      update_component_score_for_project = scoring_failing failures,
      handler_on_postgres_error = (\<lambda>e. ApiError (DatabaseError ''Database Error'' (Some e))),
      set_iteration = (\<lambda>members. members)\<rparr>"

definition foo_row :: component_row where
  "foo_row =
     \<lparr>col_package_url = ''pkg:generic/foo'',
      col_name = PyStr ''foo'',
      col_status = PyStr ''Active'',
      col_home_page = PyNone,
      col_icon_class = PyStr ''fas fa-save'',
      col_active_version = PyNone,
      col_created_at = PyInt 1,
      col_created_by = PyStr ''alice'',
      col_last_modified_at = PyNone,
      col_last_modified_by = PyNone\<rparr>"

definition example_db :: database where
  "example_db =
     \<lparr>v1_components = [foo_row],
      v1_component_versions =
        [\<lparr>cv_id = 10, cv_package_url = ''pkg:generic/foo'', cv_version = ''1.0''\<rparr>,
         \<lparr>cv_id = 11, cv_package_url = ''pkg:generic/foo'', cv_version = ''2.0''\<rparr>],
      v1_project_components =
        [\<lparr>pc_project_id = 1, pc_version_id = 10, pc_package_url = ''pkg:generic/foo''\<rparr>,
         \<lparr>pc_project_id = 1, pc_version_id = 11, pc_package_url = ''pkg:generic/foo''\<rparr>,
         \<lparr>pc_project_id = 2, pc_version_id = 10, pc_package_url = ''pkg:generic/foo''\<rparr>,
         \<lparr>pc_project_id = 3, pc_version_id = 11, pc_package_url = ''pkg:generic/foo''\<rparr>],
      v1_project_facts = [],
      clock = 100\<rparr>"

definition example_world :: world where
  "example_world = \<lparr>db = example_db, trace = []\<rparr>"

definition scoring_settings :: settings where
  "scoring_settings = [(''components'', ConfigDict [(''project_fact_type_id'', PyInt 7)])]"

definition foo_component :: Component where
  "foo_component =
     \<lparr>package_url = PyStr ''pkg:generic/foo'', name = ''foo'', status = ACTIVE,
      icon_class = ''fas fa-save'', active_version = None, home_page = None\<rparr>"

definition foo_dict :: pydict where
  "foo_dict =
     [(''package_url'', PyStr ''pkg:generic/foo''),
      (''name'', PyStr ''foo''),
      (''status'', PyStr ''Active''),
      (''icon_class'', PyStr ''fas fa-save''),
      (''active_version'', PyNone),
      (''home_page'', PyNone)]"

text \<open>The patch \<^verbatim>\<open>[{"op": "replace", "path": "/status", "value": "Deprecated"}]\<close> and
  what it makes of the record.\<close>

definition deprecate :: "operation list" where
  "deprecate = [Operation ''replace'' ''status'' None (Some (PyStr ''Deprecated''))]"

definition deprecated_component :: Component where
  "deprecated_component = foo_component\<lparr>status := DEPRECATED\<rparr>"

definition deprecated_dict :: pydict where
  "deprecated_dict = AList.update ''status'' (PyStr ''Deprecated'') foo_dict"

definition deprecated_db :: database where
  "deprecated_db =
     example_db\<lparr>v1_components :=
       [foo_row\<lparr>col_status := PyStr ''Deprecated'', col_last_modified_at := PyInt 100,
                col_last_modified_by := PyStr ''bob''\<rparr>]\<rparr>"

text \<open>More patches: a replacement of the name, a copy of the name into the icon class
  followed by a replacement of the name, the removal of a required member, a status that
  is no status, and a test that fails.\<close>

definition rename :: "operation list" where
  "rename = [Operation ''replace'' ''name'' None (Some (PyStr ''bar''))]"

definition copy_then_rename :: "operation list" where
  "copy_then_rename =
     [Operation ''copy'' ''icon_class'' (Some ''name'') None,
      Operation ''replace'' ''name'' None (Some (PyStr ''bar''))]"

definition remove_home_page :: "operation list" where
  "remove_home_page = [Operation ''remove'' ''home_page'' None None]"

definition bogus_status :: "operation list" where
  "bogus_status = [Operation ''replace'' ''status'' None (Some (PyStr ''Bogus''))]"

definition failing_test :: "operation list" where
  "failing_test = [Operation ''test'' ''name'' None (Some (PyStr ''zzz''))]"

definition renamed_row :: component_row where
  "renamed_row =
     foo_row\<lparr>col_name := PyStr ''bar'', col_last_modified_at := PyInt 100,
             col_last_modified_by := PyStr ''bob''\<rparr>"

text \<open>The patch \<^verbatim>\<open>[{"op": "replace", "path": "/package_url", "value": "pkg:generic/baz"}]\<close>,
  which changes the identifier of the record, and the row it makes of \<open>foo_row\<close>.\<close>

definition rekey :: "operation list" where
  "rekey = [Operation ''replace'' ''package_url'' None (Some (PyStr ''pkg:generic/baz''))]"

definition rekeyed_row :: component_row where
  "rekeyed_row =
     foo_row\<lparr>col_package_url := ''pkg:generic/baz'', col_last_modified_at := PyInt 100,
             col_last_modified_by := PyStr ''bob''\<rparr>"

section \<open>Pagination of the components collection\<close>

text \<open>
  Modelled from the spec: \<^verbatim>\<open>base.PaginationToken\<close> and the \<^verbatim>\<open>get\<close> of
  \<^verbatim>\<open>base.PaginatedCollectionHandler\<close> are not in the sources. A token carries the page
  size and its other fields; \<open>list_page\<close> runs the collection query with the token and
  issues the token for the next page from the last row of the page. The spec issues no
  token for a short page (fewer rows than the limit, section 4.1) and none for a last
  page that is full (\<^verbatim>\<open>[c,d]\<close> with page size 2 in the scenario of section 8): a
  token is issued exactly when rows remain after the page (\<open>remaining\<close> counts them).
  \<open>ComponentToken\<close>, \<open>with_first\<close> and \<open>COLLECTION_SQL\<close> are those of
  \<^verbatim>\<open>imbi/endpoints/components.py\<close>; text is ordered lexicographically by character
  code. \<open>all_pages\<close> follows the tokens from page to page.
\<close>

record PaginationToken =
  limit :: nat

record ComponentToken = PaginationToken +
  starting_package :: string

record collection_row = component_row +
  version_count :: nat
  project_count :: nat

definition joined_versions ::
  "database \<Rightarrow> string \<Rightarrow> (component_version_row \<times> project_component_row option) list" where
  "joined_versions d key =
     concat (map (\<lambda>v. case filter (\<lambda>p. pc_version_id p = cv_id v) (v1_project_components d) of
                         [] \<Rightarrow> [(v, None)]
                       | ps \<Rightarrow> map (\<lambda>p. (v, Some p)) ps)
               (filter (\<lambda>v. cv_package_url v = key) (v1_component_versions d)))"

definition collection_row_of :: "database \<Rightarrow> component_row \<Rightarrow> collection_row" where
  "collection_row_of d c =
     \<lparr>col_package_url = col_package_url c,
      col_name = col_name c,
      col_status = col_status c,
      col_home_page = col_home_page c,
      col_icon_class = col_icon_class c,
      col_active_version = col_active_version c,
      col_created_at = col_created_at c,
      col_created_by = col_created_by c,
      col_last_modified_at = col_last_modified_at c,
      col_last_modified_by = col_last_modified_by c,
      version_count = length (joined_versions d (col_package_url c)),
      project_count = length (filter (\<lambda>(v, p). p \<noteq> None) (joined_versions d (col_package_url c)))\<rparr>"

definition COLLECTION_SQL :: "database \<Rightarrow> string \<Rightarrow> nat \<Rightarrow> collection_row list" where
  "COLLECTION_SQL d starting n =
     take n (map (collection_row_of d)
               (sort_key col_package_url
                  (filter (\<lambda>c. starting < col_package_url c) (v1_components d))))"

definition with_first :: "'a ComponentToken_scheme \<Rightarrow> 'b collection_row_scheme \<Rightarrow> 'a ComponentToken_scheme" where
  "with_first self item = self\<lparr>starting_package := col_package_url item\<rparr>"

definition remaining :: "database \<Rightarrow> 'a ComponentToken_scheme \<Rightarrow> nat" where
  "remaining d token =
     length (filter (\<lambda>c. starting_package token < col_package_url c) (v1_components d))"

definition list_page ::
  "database \<Rightarrow> 'a ComponentToken_scheme \<Rightarrow> collection_row list \<times> 'a ComponentToken_scheme option" where
  "list_page d token =
     (let rows = COLLECTION_SQL d (starting_package token) (limit token)
      in (rows, if rows = [] \<or> remaining d (with_first token (last rows)) = 0 then None
                else Some (with_first token (last rows))))"

text \<open>The store of the scenario: the packages \<open>a\<close>, \<open>b\<close>, \<open>c\<close> and \<open>d\<close>, in no
  particular order.\<close>

definition component_named :: "string \<Rightarrow> component_row" where
  "component_named k = foo_row\<lparr>col_package_url := k\<rparr>"

definition abcd_db :: database where
  "abcd_db =
     \<lparr>v1_components = [component_named ''c'', component_named ''a'', component_named ''d'',
                       component_named ''b''],
      v1_component_versions = [], v1_project_components = [], v1_project_facts = [],
      clock = 100\<rparr>"

lemma col_package_url_collection_row_of [simp]:
  "col_package_url (collection_row_of d c) = col_package_url c"
  by (simp add: collection_row_of_def)

lemma list_page_next_key:
  assumes "list_page d token = (rows, Some next)"
  shows "\<exists>c \<in> set (v1_components d). starting_package token < col_package_url c
           \<and> starting_package next = col_package_url c"
proof -
  let ?all = "map (collection_row_of d)
               (sort_key col_package_url
                  (filter (\<lambda>c. starting_package token < col_package_url c) (v1_components d)))"
  from assms have ne: "rows \<noteq> []" and nx: "next = with_first token (last rows)"
    and rows: "rows = take (limit token) ?all"
    by (auto simp: list_page_def Let_def COLLECTION_SQL_def split: if_splits)
  from ne have "last rows \<in> set rows" by simp
  with rows have "last rows \<in> set ?all" by (metis in_set_takeD)
  then obtain c where "c \<in> set (v1_components d)" "starting_package token < col_package_url c"
    "last rows = collection_row_of d c" by auto
  with nx show ?thesis by (auto simp: with_first_def)
qed

lemma remaining_decreases:
  assumes "list_page d token = (rows, Some next)"
  shows "remaining d next < remaining d token"
proof -
  from list_page_next_key [OF assms] obtain c where
    c: "c \<in> set (v1_components d)" "starting_package token < col_package_url c"
       "starting_package next = col_package_url c" by blast
  let ?xs = "filter (\<lambda>c. starting_package token < col_package_url c) (v1_components d)"
  have "filter (\<lambda>x. starting_package next < col_package_url x) (v1_components d)
        = filter (\<lambda>x. starting_package next < col_package_url x) ?xs"
    using c by (auto intro!: filter_cong)
  moreover have "c \<in> set ?xs" using c by simp
  moreover have "\<not> starting_package next < col_package_url c" using c by simp
  ultimately show ?thesis
    unfolding remaining_def by (metis length_filter_less)
qed

function all_pages :: "database \<Rightarrow> 'a ComponentToken_scheme \<Rightarrow> collection_row list list" where
  "all_pages d token =
     (case list_page d token of
        (rows, None) \<Rightarrow> [rows]
      | (rows, Some next) \<Rightarrow> rows # all_pages d next)"
  by pat_completeness auto
termination
  by (relation "measure (\<lambda>(d, token). remaining d token)")
    (auto dest: sym intro: remaining_decreases)

declare all_pages.simps [simp del]

section \<open>Properties of RecordRequestHandler.patch\<close>

subsection \<open>The path of a request through patch\<close>

lemma patch_reaches_persist:
  assumes "GET_SQL (db w) (PyStr key) = Some row"
    and "model_validate env row = Inr original"
    and "JsonPatch env body = Inr applied"
    and "applied (model_dump env original) = Inr updated_dict"
    and "all_unchanged (model_dump env original) updated_dict = Inr False"
  shows "patch env settings others username key body w =
           patch_persist env settings others username original updated_dict
             (record_event (Executed ''get-component'') w)"
  using assms by (simp add: patch_def record_event_def)

lemma patch_persist_committed:
  assumes "model_validate env updated_dict = Inr updated"
    and "PATCH_SQL (statement_params username original updated_dict) (others (db w)) = Inr (Suc n, d)"
  shows "patch_persist env settings others username original updated_dict w =
           (case (if project_update_required settings original updated
                  then update_affected_projects env (package_url updated)
                         \<lparr>db = d, trace = trace w @ [Executed ''patch-component'']\<rparr>
                  else (None, \<lparr>db = d, trace = trace w @ [Executed ''patch-component'']\<rparr>)) of
              (Some exc, w2) \<Rightarrow> (Inl exc, w2)
            | (None, w2) \<Rightarrow> get_record (package_url updated) w2)"
  using assms by (cases w) (simp add: patch_persist_def record_event_def)

lemma patch_committed:
  assumes "GET_SQL (db w) (PyStr key) = Some row"
    and "model_validate env row = Inr original"
    and "JsonPatch env body = Inr applied"
    and "applied (model_dump env original) = Inr updated_dict"
    and "all_unchanged (model_dump env original) updated_dict = Inr False"
    and "model_validate env updated_dict = Inr updated"
    and "PATCH_SQL (statement_params username original updated_dict) (others (db w)) = Inr (Suc n, d)"
  shows "patch env settings others username key body w =
           (case (if project_update_required settings original updated
                  then update_affected_projects env (package_url updated)
                         \<lparr>db = d, trace = trace w @ [Executed ''get-component'', Executed ''patch-component'']\<rparr>
                  else (None, \<lparr>db = d, trace = trace w @ [Executed ''get-component'', Executed ''patch-component'']\<rparr>)) of
              (Some exc, w2) \<Rightarrow> (Inl exc, w2)
            | (None, w2) \<Rightarrow> get_record (package_url updated) w2)"
proof -
  let ?w1 = "record_event (Executed ''get-component'') w"
  have p: "patch env settings others username key body w =
             patch_persist env settings others username original updated_dict ?w1"
    using assms(1-5) by (rule patch_reaches_persist)
  have w: "PATCH_SQL (statement_params username original updated_dict) (others (db ?w1))
             = Inr (Suc n, d)"
    using assms(7) by (simp add: record_event_def)
  show ?thesis
    unfolding p patch_persist_committed [where others = others and w = ?w1, OF assms(6) w]
    by (simp add: record_event_def)
qed

lemma patch_persist_never_not_modified:
  "fst (patch_persist env settings others username original updated_dict w) \<noteq> Inr NotModified"
  by (auto simp: patch_persist_def get_record_def Let_def
      split: sum.splits list.splits prod.splits option.splits exn.splits if_splits)

lemma get_record_trace:
  "trace (snd (get_record key w)) = trace w @ [Executed ''get-component'']"
  by (simp add: get_record_def Let_def record_event_def split: option.splits)

lemma get_record_db: "db (snd (get_record key w)) = db w"
  by (simp add: get_record_def Let_def record_event_def split: option.splits)

lemma get_record_response:
  "fst (get_record key (snd (get_record key w))) = fst (get_record key w)"
  by (simp add: get_record_def Let_def record_event_def GET_SQL_def split: option.splits)

subsection \<open>The fan-out over the affected projects\<close>

lemma executed_append [simp]: "executed (xs @ ys) = executed xs @ executed ys"
  by (induction xs rule: executed.induct) simp_all

lemma scored_append [simp]: "scored (xs @ ys) = scored xs @ scored ys"
  by (induction xs rule: scored.induct) simp_all

lemma warned_append [simp]: "warned (xs @ ys) = warned xs @ warned ys"
  by (induction xs rule: warned.induct) simp_all

lemma all_unchanged_iff:
  "all_unchanged original_dict updated_dict = Inr True \<longleftrightarrow> every_field_equal original_dict updated_dict"
  by (induction updated_dict) (auto simp: every_field_equal_def split: option.splits if_splits)

lemma update_scores_executes_nothing:
  "executed (trace (snd (update_scores env ids w))) = executed (trace w)"
  by (induction ids arbitrary: w)
    (auto simp: record_event_def Let_def split: prod.splits option.splits)

lemma update_scores_never_foreign_key:
  "fst (update_scores env ids w) \<noteq> Some (PgExn ForeignKeyViolation)"
  by (induction ids arbitrary: w)
    (auto simp: record_event_def Let_def split: prod.splits option.splits)

lemma update_scores_keeps_components:
  assumes "\<forall>p s. v1_components (snd (update_component_score_for_project env p s)) = v1_components s"
  shows "v1_components (db (snd (update_scores env ids w))) = v1_components (db w)"
proof (induction ids arbitrary: w)
  case Nil
  then show ?case by simp
next
  case (Cons p ids)
  let ?w1 = "record_event (ScoreCall p) w"
  obtain r d where s: "update_component_score_for_project env p (db ?w1) = (r, d)"
    by (cases "update_component_score_for_project env p (db ?w1)")
  with assms [rule_format, of p "db ?w1"] have d: "v1_components d = v1_components (db w)"
    by (simp add: record_event_def)
  show ?case using s d Cons.IH
    by (cases r) (simp_all add: Let_def record_event_def)
qed

lemma update_scores_calls_prefix:
  "\<exists>n. scored (trace (snd (update_scores env ids w))) = scored (trace w) @ take n ids"
proof (induction ids arbitrary: w)
  case Nil
  then show ?case by simp
next
  case (Cons p ids)
  let ?w1 = "record_event (ScoreCall p) w"
  obtain r d where s: "update_component_score_for_project env p (db ?w1) = (r, d)"
    by (cases "update_component_score_for_project env p (db ?w1)")
  show ?case
  proof (cases "r = None \<or> connector_raises env (the r) = PgExn ForeignKeyViolation")
    case True
    then obtain w' where u: "update_scores env (p # ids) w = update_scores env ids w'"
      and t: "scored (trace w') = scored (trace w) @ [p]"
      using s by (cases r) (auto simp: Let_def record_event_def)
    from Cons.IH [of w'] obtain n where
      "scored (trace (snd (update_scores env ids w'))) = scored (trace w') @ take n ids" ..
    then have "scored (trace (snd (update_scores env (p # ids) w)))
                 = scored (trace w) @ take (Suc n) (p # ids)"
      using u t by simp
    then show ?thesis ..
  next
    case False
    then have "scored (trace (snd (update_scores env (p # ids) w)))
                 = scored (trace w) @ take (Suc 0) (p # ids)"
      using s by (cases r) (auto simp: Let_def record_event_def)
    then show ?thesis ..
  qed
qed

text \<open>The loop over projects whose recomputation has the outcome \<open>outcome\<close>, whatever
  the store holds: past every tolerated outcome, and out at the first other one.\<close>

lemma update_scores_tolerated:
  assumes "\<forall>q \<in> set ids. \<forall>s. fst (update_component_score_for_project env q s) = outcome q"
    and "\<forall>q \<in> set ids. tolerated (outcome q)"
  shows "fst (update_scores env ids w) = None
       \<and> scored (trace (snd (update_scores env ids w))) = scored (trace w) @ ids
       \<and> warned (trace (snd (update_scores env ids w)))
           = warned (trace w) @ filter (\<lambda>q. outcome q \<noteq> None) ids
       \<and> db (snd (update_scores env ids w))
           = fold (\<lambda>q s. snd (update_component_score_for_project env q s)) ids (db w)"
  using assms
proof (induction ids arbitrary: w)
  case Nil
  then show ?case by simp
next
  case (Cons p ids)
  let ?w1 = "record_event (ScoreCall p) w"
  let ?d = "snd (update_component_score_for_project env p (db w))"
  have s: "update_component_score_for_project env p (db ?w1) = (outcome p, ?d)"
    using Cons.prems(1) by (simp add: record_event_def prod_eq_iff)
  have rest: "\<forall>q \<in> set ids. \<forall>s. fst (update_component_score_for_project env q s) = outcome q"
    "\<forall>q \<in> set ids. tolerated (outcome q)"
    using Cons.prems by simp_all
  from Cons.prems(2) have "tolerated (outcome p)" by simp
  then show ?case
  proof (cases "outcome p")
    case None
    with s have u: "update_scores env (p # ids) w = update_scores env ids (?w1\<lparr>db := ?d\<rparr>)"
      by (simp add: Let_def)
    show ?thesis unfolding u using Cons.IH [OF rest, of "?w1\<lparr>db := ?d\<rparr>"] None
      by (simp add: record_event_def)
  next
    case (Some exc)
    with \<open>tolerated (outcome p)\<close> have e: "exc = PgExn ForeignKeyViolation"
      by (simp add: tolerated_def)
    with s Some have u: "update_scores env (p # ids) w
        = update_scores env ids (record_event (LogWarning p) (?w1\<lparr>db := ?d\<rparr>))"
      by (simp add: Let_def connector_raises_def on_postgres_error_def)
    show ?thesis unfolding u
      using Cons.IH [OF rest, of "record_event (LogWarning p) (?w1\<lparr>db := ?d\<rparr>)"] Some
      by (simp add: record_event_def)
  qed
qed

lemma update_scores_append:
  "fst (update_scores env xs w) = None \<Longrightarrow>
     update_scores env (xs @ ys) w = update_scores env ys (snd (update_scores env xs w))"
proof (induction xs arbitrary: w)
  case Nil
  then show ?case by simp
next
  case (Cons p xs)
  let ?w1 = "record_event (ScoreCall p) w"
  obtain r d where s: "update_component_score_for_project env p (db ?w1) = (r, d)"
    by (cases "update_component_score_for_project env p (db ?w1)")
  show ?case
  proof (cases r)
    case None
    with s Cons.prems Cons.IH [of "?w1\<lparr>db := d\<rparr>"] show ?thesis by (simp add: Let_def)
  next
    case (Some exc)
    show ?thesis
    proof (cases "connector_raises env exc = PgExn ForeignKeyViolation")
      case True
      with s Some Cons.prems Cons.IH [of "record_event (LogWarning p) (?w1\<lparr>db := d\<rparr>)"]
      show ?thesis by (simp add: Let_def)
    next
      case False
      with s Some Cons.prems show ?thesis by (simp add: Let_def)
    qed
  qed
qed

lemma update_scores_stops:
  assumes "\<forall>s. fst (update_component_score_for_project env p s) = Some exc"
    and "exc \<noteq> PgExn ForeignKeyViolation"
    and "\<forall>e. handler_on_postgres_error env e \<noteq> PgExn ForeignKeyViolation"
  shows "update_scores env (p # rest) w =
           (Some (case exc of PgExn e \<Rightarrow> handler_on_postgres_error env e | _ \<Rightarrow> exc),
            \<lparr>db = snd (update_component_score_for_project env p (db w)),
               trace = trace w @ [ScoreCall p]\<rparr>)"
proof -
  obtain r d where s: "update_component_score_for_project env p (db w) = (r, d)"
    by (cases "update_component_score_for_project env p (db w)")
  with assms(1) [rule_format, of "db w"] have r: "r = Some exc" by simp
  have c: "connector_raises env exc = (case exc of PgExn e \<Rightarrow> handler_on_postgres_error env e | _ \<Rightarrow> exc)"
    using assms(2) by (cases exc) (auto simp: connector_raises_def on_postgres_error_def)
  have n: "connector_raises env exc \<noteq> PgExn ForeignKeyViolation"
    using assms(2,3) by (cases exc) (auto simp: connector_raises_def on_postgres_error_def)
  show ?thesis using s r n c by (cases w) (simp add: Let_def record_event_def)
qed

lemma iterate_set_distinct: "distinct (iterate_set env rows)"
  by (simp add: iterate_set_def Let_def)

lemma iterate_set_members: "set (iterate_set env rows) = set rows"
  by (auto simp: iterate_set_def Let_def)

text \<open>The order in which the query returns its rows does not matter.\<close>

lemma iterate_set_order_free:
  "set rows = set rows' \<Longrightarrow> iterate_set env rows = iterate_set env rows'"
  by (simp add: iterate_set_def sorted_list_of_set_sort_remdups [symmetric])

lemma update_affected_projects_unfold:
  assumes "retrieve_affected_projects (db w) key \<noteq> []"
  shows "update_affected_projects env key w =
           update_scores env (iterate_set env (retrieve_affected_projects (db w) key))
             (w\<lparr>trace := trace w @ [Executed ''retrieve-affected-projects'',
                  LogInfo (length (iterate_set env (retrieve_affected_projects (db w) key)))]\<rparr>)"
  using assms by (simp add: update_affected_projects_def Let_def record_event_def)

lemma update_affected_projects_none:
  assumes "retrieve_affected_projects (db w) key = []"
  shows "update_affected_projects env key w =
           (None, w\<lparr>trace := trace w @ [Executed ''retrieve-affected-projects'']\<rparr>)"
  using assms by (simp add: update_affected_projects_def Let_def record_event_def)

lemma update_affected_projects_executes:
  "executed (trace (snd (update_affected_projects env key w)))
     = executed (trace w) @ [''retrieve-affected-projects'']"
  by (simp add: update_affected_projects_def Let_def update_scores_executes_nothing record_event_def)

lemma update_affected_projects_never_foreign_key:
  "fst (update_affected_projects env key w) \<noteq> Some (PgExn ForeignKeyViolation)"
  by (simp add: update_affected_projects_def Let_def update_scores_never_foreign_key)

lemma update_affected_projects_keeps_components:
  assumes "\<forall>p s. v1_components (snd (update_component_score_for_project env p s)) = v1_components s"
  shows "v1_components (db (snd (update_affected_projects env key w))) = v1_components (db w)"
  by (simp add: update_affected_projects_def Let_def update_scores_keeps_components [OF assms]
      record_event_def)

subsection \<open>The example request\<close>

lemma update_scores_executed:
  "Executed s \<in> set (trace (snd (update_scores env ids w))) \<longleftrightarrow> Executed s \<in> set (trace w)"
  by (induction ids arbitrary: w) (auto simp: record_event_def Let_def split: prod.splits option.splits)

lemma update_affected_projects_executed:
  "Executed ''retrieve-affected-projects'' \<in> set (trace (snd (update_affected_projects env key w)))"
  by (simp add: update_affected_projects_def Let_def update_scores_executed record_event_def)

lemma example_reaches_write:
  "GET_SQL (db example_world) (PyStr ''pkg:generic/foo'') = Some (row_dict foo_row)"
  "model_validate (example_env fs) (row_dict foo_row) = Inr foo_component"
  "model_dump (example_env fs) foo_component = foo_dict"
  by (simp_all add: example_world_def example_db_def GET_SQL_def example_env_def
      Component_model_validate_def row_dict_def foo_row_def str_field_def status_field_def
      range_field_def opt_str_field_def package_url_field_def foo_component_def
      Component_model_dump_def foo_dict_def)

lemma example_deprecate:
  "JsonPatch (example_env fs) deprecate = Inr (apply_operations deprecate)"
  "apply_operations deprecate foo_dict = Inr deprecated_dict"
  "all_unchanged foo_dict deprecated_dict = Inr False"
  "model_validate (example_env fs) deprecated_dict = Inr deprecated_component"
  "PATCH_SQL (statement_params ''bob'' foo_component deprecated_dict) (db example_world)
     = Inr (Suc 0, deprecated_db)"
  by (simp_all add: example_env_def JsonPatch_members_def deprecate_def known_operations_def
      foo_dict_def deprecated_dict_def Component_model_validate_def str_field_def
      status_field_def range_field_def opt_str_field_def package_url_field_def
      deprecated_component_def foo_component_def statement_params_def PATCH_SQL_def
      PATCH_SQL_params_def example_world_def example_db_def foo_row_def deprecated_db_def
      set_columns_def)

lemma example_affected:
  "retrieve_affected_projects deprecated_db (package_url deprecated_component) = [1, 2, 3]"
  "iterate_set (example_env fs) [1, 2, 3] = [1, 2, 3]"
  by (simp_all add: retrieve_affected_projects_def deprecated_db_def example_db_def
      deprecated_component_def foo_component_def iterate_set_def example_env_def Let_def)

lemma example_required:
  "project_update_required scoring_settings foo_component deprecated_component"
  by (simp add: project_update_required_def project_fact_type_id_configured_def
      components_config_def scoring_settings_def foo_component_def deprecated_component_def)

subsection \<open>When the cascade runs\<close>

text \<open>
  C3, as the code has it. After a patch whose write succeeded, the affected projects
  are looked up and rescored if and only if \<open>project_fact_type_id\<close> is configured and
  either the status differs between the original and the updated component, or the
  updated status is Active and the active version differs. (The claim leaves out the
  configuration gate.)
\<close>

theorem cascade_iff_configured_and_changed:
  assumes "GET_SQL (db w) (PyStr key) = Some row"
    and "model_validate env row = Inr original"
    and "JsonPatch env body = Inr applied"
    and "applied (model_dump env original) = Inr updated_dict"
    and "all_unchanged (model_dump env original) updated_dict = Inr False"
    and "model_validate env updated_dict = Inr updated"
    and "PATCH_SQL (statement_params username original updated_dict) (others (db w)) = Inr (Suc n, d)"
    and "Executed ''retrieve-affected-projects'' \<notin> set (trace w)"
  shows "(project_update_required settings original updated \<longleftrightarrow>
            project_fact_type_id_configured settings \<and>
            (status updated \<noteq> status original \<or>
             (status updated = ACTIVE \<and> active_version updated \<noteq> active_version original)))
       \<and> (Executed ''retrieve-affected-projects''
             \<in> set (trace (snd (patch env settings others username key body w)))
           \<longleftrightarrow> project_update_required settings original updated)"
proof
  show "project_update_required settings original updated \<longleftrightarrow>
            project_fact_type_id_configured settings \<and>
            (status updated \<noteq> status original \<or>
             (status updated = ACTIVE \<and> active_version updated \<noteq> active_version original))"
    by (auto simp: project_update_required_def)
next
  let ?w1 = "record_event (Executed ''get-component'') w"
  have p: "patch env settings others username key body w =
             patch_persist env settings others username original updated_dict ?w1"
    using assms(1-5) by (rule patch_reaches_persist)
  have w: "PATCH_SQL (statement_params username original updated_dict) (others (db ?w1))
             = Inr (Suc n, d)"
    using assms(7) by (simp add: record_event_def)
  note c = patch_persist_committed [where others = others and w = ?w1, OF assms(6) w]
  show "Executed ''retrieve-affected-projects''
          \<in> set (trace (snd (patch env settings others username key body w)))
        \<longleftrightarrow> project_update_required settings original updated"
  proof (cases "project_update_required settings original updated")
    case True
    then show ?thesis
      unfolding p c
      using update_affected_projects_executed
        [of env "package_url updated" "\<lparr>db = d, trace = trace ?w1 @ [Executed ''patch-component'']\<rparr>"]
      by (auto simp: get_record_trace split: prod.splits option.splits)
  next
    case False
    then show ?thesis
      unfolding p c
      using assms(8) by (simp add: get_record_trace record_event_def)
  qed
qed

theorem cascade_iff_configured_and_changed_witness:
  "Executed ''retrieve-affected-projects''
     \<in> set (trace (snd (patch (example_env []) scoring_settings (\<lambda>d. d) ''bob''
                            ''pkg:generic/foo'' deprecate example_world)))
   \<and> project_update_required scoring_settings foo_component deprecated_component"
proof -
  have r: "project_update_required scoring_settings foo_component deprecated_component"
    by (simp add: project_update_required_def project_fact_type_id_configured_def
        components_config_def scoring_settings_def foo_component_def deprecated_component_def)
  have t: "Executed ''retrieve-affected-projects'' \<notin> set (trace example_world)"
    by (simp add: example_world_def)
  from cascade_iff_configured_and_changed
    [where others = "\<lambda>d. d" and settings = scoring_settings and username = "''bob''"
       and n = 0 and d = deprecated_db and updated_dict = deprecated_dict,
     OF example_reaches_write(1) example_reaches_write(2) example_deprecate(1) _ _
        example_deprecate(4), of "[]"]
    example_deprecate(2,3,5) example_reaches_write(3) t r
  show ?thesis by simp
qed

text \<open>C3 as stated fails: with no \<open>project_fact_type_id\<close> configured, a change of
  status from Active to Deprecated requires no update of the projects.\<close>

theorem cascade_needs_configuration_counterexample:
  "\<not> (project_update_required [] foo_component deprecated_component \<longleftrightarrow>
        (status deprecated_component \<noteq> status foo_component \<or>
         (status deprecated_component = ACTIVE \<and>
          active_version deprecated_component \<noteq> active_version foo_component)))"
  by (simp add: project_update_required_def project_fact_type_id_configured_def
      components_config_def foo_component_def deprecated_component_def)


subsection \<open>The response after the write\<close>

text \<open>
  C8, as the code has it. Once the write has succeeded, the response of the patch is
  decided by the cascade, which is awaited before the response is written: an exception
  of the cascade (never a foreign key violation, those are skipped) is the outcome of
  the patch, and only a cascade that ends without one lets the record be read back as
  the response. The write is not undone either way.
\<close>

theorem response_follows_cascade:
  assumes "GET_SQL (db w) (PyStr key) = Some row"
    and "model_validate env row = Inr original"
    and "JsonPatch env body = Inr applied"
    and "applied (model_dump env original) = Inr updated_dict"
    and "all_unchanged (model_dump env original) updated_dict = Inr False"
    and "model_validate env updated_dict = Inr updated"
    and "PATCH_SQL (statement_params username original updated_dict) (others (db w)) = Inr (Suc n, d)"
    and "cascade =
           (if project_update_required settings original updated
            then update_affected_projects env (package_url updated)
                   \<lparr>db = d, trace = trace w @ [Executed ''get-component'', Executed ''patch-component'']\<rparr>
            else (None, \<lparr>db = d, trace = trace w @ [Executed ''get-component'', Executed ''patch-component'']\<rparr>))"
  shows "(case fst cascade of
            None \<Rightarrow> patch env settings others username key body w
                      = get_record (package_url updated) (snd cascade)
          | Some exc \<Rightarrow> patch env settings others username key body w = (Inl exc, snd cascade)
                      \<and> exc \<noteq> PgExn ForeignKeyViolation)"
proof -
  have p: "patch env settings others username key body w =
             (case cascade of (Some exc, w2) \<Rightarrow> (Inl exc, w2)
                            | (None, w2) \<Rightarrow> get_record (package_url updated) w2)"
    unfolding assms(8)
    by (rule patch_committed [where others = others and applied = applied, OF assms(1-7)])
  have "fst cascade \<noteq> Some (PgExn ForeignKeyViolation)"
    unfolding assms(8) by (simp add: update_affected_projects_never_foreign_key)
  then show ?thesis unfolding p by (cases cascade) (auto split: option.splits)
qed

theorem response_follows_cascade_witness:
  "is_updated (fst (patch (example_env []) scoring_settings (\<lambda>d. d) ''bob'' ''pkg:generic/foo''
                      deprecate example_world))"
proof -
  let ?env = "example_env []"
  let ?c = "update_affected_projects ?env (package_url deprecated_component)
              \<lparr>db = deprecated_db,
                 trace = trace example_world @ [Executed ''get-component'', Executed ''patch-component'']\<rparr>"
  have a: "apply_operations deprecate (model_dump ?env foo_component) = Inr deprecated_dict"
    and b: "all_unchanged (model_dump ?env foo_component) deprecated_dict = Inr False"
    by (simp_all add: example_reaches_write(3) example_deprecate)
  have c: "?c = (if project_update_required scoring_settings foo_component deprecated_component
                 then ?c
                 else (None, \<lparr>db = deprecated_db,
                               trace = trace example_world @ [Executed ''get-component'', Executed ''patch-component'']\<rparr>))"
    by (simp add: example_required)
  have f: "fst ?c = None"
    by code_simp
  have g: "is_updated (fst (get_record (package_url deprecated_component) (snd ?c)))"
    by code_simp
  note inst = response_follows_cascade
    [where others = "\<lambda>d. d" and applied = "apply_operations deprecate"
       and settings = scoring_settings,
     OF example_reaches_write(1) example_reaches_write(2) example_deprecate(1) a b
        example_deprecate(4) example_deprecate(5) c]
  from inst f g show ?thesis by simp
qed

text \<open>C8 as stated fails: the write is committed (the store holds the deprecated
  record, and the score of project 1), the recomputation for project 2 fails with a store
  error other than a foreign key violation, and the patch ends with that error instead
  of a response.\<close>

theorem cascade_failure_fails_response_counterexample:
  "fst (patch (example_env [(2, PgExn (OtherPostgresError ''connection lost''))]) scoring_settings
          (\<lambda>d. d) ''bob'' ''pkg:generic/foo'' deprecate example_world)
     = Inl (ApiError (DatabaseError ''Database Error'' (Some (OtherPostgresError ''connection lost''))))
   \<and> db (snd (patch (example_env [(2, PgExn (OtherPostgresError ''connection lost''))])
                 scoring_settings (\<lambda>d. d) ''bob'' ''pkg:generic/foo'' deprecate example_world))
     = deprecated_db\<lparr>v1_project_facts := [(1, PyInt 100)]\<rparr>"
  by code_simp


subsection \<open>Each project at most once\<close>

text \<open>
  C10. The projects rescored by one run of \<open>update_affected_projects\<close> are pairwise
  distinct, whatever number of versions of the component a project uses, and each of
  them is a project that uses the component.
\<close>

theorem each_project_rescored_at_most_once:
  "\<exists>calls. scored (trace (snd (update_affected_projects env key w))) = scored (trace w) @ calls
        \<and> distinct calls
        \<and> set calls \<subseteq> pc_project_id `
              {r \<in> set (v1_project_components (db w)). PyStr (pc_package_url r) = key}"
proof -
  let ?rows = "retrieve_affected_projects (db w) key"
  let ?ids = "iterate_set env ?rows"
  have d: "distinct ?ids" by (rule iterate_set_distinct)
  have sub: "set ?ids \<subseteq> pc_project_id `
               {r \<in> set (v1_project_components (db w)). PyStr (pc_package_url r) = key}"
    unfolding iterate_set_members by (auto simp: retrieve_affected_projects_def)
  show ?thesis
  proof (cases "?rows = []")
    case True
    then have "scored (trace (snd (update_affected_projects env key w))) = scored (trace w) @ []"
      by (simp add: update_affected_projects_none)
    then show ?thesis by (intro exI [of _ "[]"]) simp
  next
    case False
    let ?w1 = "w\<lparr>trace := trace w @ [Executed ''retrieve-affected-projects'', LogInfo (length ?ids)]\<rparr>"
    have u: "update_affected_projects env key w = update_scores env ?ids ?w1"
      using False by (rule update_affected_projects_unfold)
    from update_scores_calls_prefix [of env ?ids ?w1] obtain n where
      "scored (trace (snd (update_scores env ?ids ?w1))) = scored (trace ?w1) @ take n ?ids" ..
    then have "scored (trace (snd (update_affected_projects env key w))) = scored (trace w) @ take n ?ids"
      using u by simp
    moreover have "distinct (take n ?ids)" using d by simp
    moreover have "set (take n ?ids) \<subseteq> set ?ids" by (rule set_take_subset)
    ultimately show ?thesis using sub by (intro exI [of _ "take n ?ids"]) blast
  qed
qed

theorem each_project_rescored_at_most_once_witness:
  "scored (trace (snd (update_affected_projects (example_env []) (PyStr ''pkg:generic/foo'')
                         example_world)))
     = [1, 2, 3]
   \<and> map pc_project_id (v1_project_components (db example_world)) = [1, 1, 2, 3]"
proof -
  have e: "scored (trace (snd (update_affected_projects (example_env []) (PyStr ''pkg:generic/foo'')
                                 example_world)))
     = [1, 2, 3]"
    by code_simp
  have m: "map pc_project_id (v1_project_components (db example_world)) = [1, 1, 2, 3]"
    by (simp add: example_world_def example_db_def)
  from each_project_rescored_at_most_once
    [of "example_env []" "PyStr ''pkg:generic/foo''" example_world]
  obtain calls where
    "scored (trace (snd (update_affected_projects (example_env []) (PyStr ''pkg:generic/foo'')
                           example_world)))
       = scored (trace example_world) @ calls" "distinct calls" by blast
  with e m show ?thesis by simp
qed

subsection \<open>Failures during the fan-out\<close>

lemma iterate_set_empty: "iterate_set env [] = []"
  using iterate_set_members [of env "[]"] by simp

lemma update_affected_projects_scores:
  "\<exists>evs. update_affected_projects env key w =
            update_scores env (iterate_set env (retrieve_affected_projects (db w) key))
              (w\<lparr>trace := trace w @ evs\<rparr>)
        \<and> scored evs = [] \<and> warned evs = []"
proof (cases "retrieve_affected_projects (db w) key = []")
  case True
  then have "update_affected_projects env key w =
            update_scores env (iterate_set env (retrieve_affected_projects (db w) key))
              (w\<lparr>trace := trace w @ [Executed ''retrieve-affected-projects'']\<rparr>)"
    by (simp add: update_affected_projects_none iterate_set_empty)
  then show ?thesis by (intro exI [of _ "[Executed ''retrieve-affected-projects'']"]) simp
next
  case False
  then show ?thesis
    by (intro exI [of _ "[Executed ''retrieve-affected-projects'',
          LogInfo (length (iterate_set env (retrieve_affected_projects (db w) key)))]"])
      (simp add: update_affected_projects_unfold)
qed

lemma update_scores_outcome:
  assumes "\<forall>q \<in> set ids. \<forall>s. fst (update_component_score_for_project env q s) = outcome q"
    and "\<forall>e. handler_on_postgres_error env e \<noteq> PgExn ForeignKeyViolation"
  shows "(case dropWhile (\<lambda>q. tolerated (outcome q)) ids of
            [] \<Rightarrow>
              fst (update_scores env ids w) = None
            \<and> scored (trace (snd (update_scores env ids w))) = scored (trace w) @ ids
            \<and> warned (trace (snd (update_scores env ids w)))
                = warned (trace w) @ filter (\<lambda>q. outcome q \<noteq> None) ids
            \<and> db (snd (update_scores env ids w))
                = fold (\<lambda>q s. snd (update_component_score_for_project env q s)) ids (db w)
          | p # rest \<Rightarrow>
              (\<exists>exc. outcome p = Some exc \<and> exc \<noteq> PgExn ForeignKeyViolation
                   \<and> fst (update_scores env ids w)
                       = Some (case exc of PgExn e \<Rightarrow> handler_on_postgres_error env e | _ \<Rightarrow> exc))
            \<and> scored (trace (snd (update_scores env ids w)))
                = scored (trace w) @ takeWhile (\<lambda>q. tolerated (outcome q)) ids @ [p]
            \<and> warned (trace (snd (update_scores env ids w)))
                = warned (trace w)
                  @ filter (\<lambda>q. outcome q \<noteq> None) (takeWhile (\<lambda>q. tolerated (outcome q)) ids)
            \<and> db (snd (update_scores env ids w))
                = fold (\<lambda>q s. snd (update_component_score_for_project env q s))
                    (takeWhile (\<lambda>q. tolerated (outcome q)) ids @ [p]) (db w))"
proof (cases "dropWhile (\<lambda>q. tolerated (outcome q)) ids")
  case Nil
  then have "\<forall>q \<in> set ids. tolerated (outcome q)" by (simp add: dropWhile_eq_Nil_conv)
  from update_scores_tolerated [OF assms(1) this, of w] show ?thesis unfolding Nil by simp
next
  case (Cons p rest)
  let ?tw = "takeWhile (\<lambda>q. tolerated (outcome q)) ids"
  have ids: "ids = ?tw @ p # rest" and np: "\<not> tolerated (outcome p)"
    using Cons by (simp_all add: dropWhile_eq_Cons_conv)
  have mem: "set ?tw \<subseteq> set ids" "p \<in> set ids"
    using ids by (metis set_takeWhileD subsetI, metis in_set_conv_decomp)
  have d: "\<forall>q \<in> set ?tw. \<forall>s. fst (update_component_score_for_project env q s) = outcome q"
    using assms(1) mem(1) by blast
  have t: "\<forall>q \<in> set ?tw. tolerated (outcome q)"
    by (meson set_takeWhileD)
  note tw = update_scores_tolerated [OF d t, of w]
  let ?w' = "snd (update_scores env ?tw w)"
  have split: "update_scores env ids w = update_scores env (p # rest) ?w'"
    using update_scores_append [of env ?tw w "p # rest"] tw ids by simp
  from np obtain exc where o: "outcome p = Some exc" and ne: "exc \<noteq> PgExn ForeignKeyViolation"
    by (cases "outcome p") (auto simp: tolerated_def)
  have dp: "\<forall>s. fst (update_component_score_for_project env p s) = Some exc"
    using assms(1) mem(2) o by simp
  note stop = update_scores_stops [OF dp ne assms(2), of rest ?w']
  have "fst (update_scores env ids w)
          = Some (case exc of PgExn e \<Rightarrow> handler_on_postgres_error env e | _ \<Rightarrow> exc)"
    unfolding split stop by simp
  moreover have "scored (trace (snd (update_scores env ids w))) = scored (trace w) @ ?tw @ [p]"
    unfolding split stop using tw by simp
  moreover have "warned (trace (snd (update_scores env ids w)))
                   = warned (trace w) @ filter (\<lambda>q. outcome q \<noteq> None) ?tw"
    unfolding split stop using tw by simp
  moreover have "db (snd (update_scores env ids w))
                   = fold (\<lambda>q s. snd (update_component_score_for_project env q s)) (?tw @ [p]) (db w)"
    unfolding split stop using tw by simp
  ultimately show ?thesis unfolding Cons using o ne by simp
qed

text \<open>
  C7. A patch has written its record and the cascade is required. \<open>ids\<close> are the
  projects that use the component, in the order in which the set of them is iterated
  (any order: it is a parameter), and \<open>outcome q\<close> is how recomputing the score of
  project \<open>q\<close> ends, whatever the state of the store: with no exception, or with one.
  A foreign key violation (the project was deleted in the meantime) is tolerated: a
  warning is logged for the project and the loop goes on. So:

  \<^item> if every outcome is none or a foreign key violation, every project is attempted,
    in order, a warning is logged for exactly those with a violation, the store is the
    one that the recomputations of all the projects leave, one after the other, and
    the response is the record read back from it: no error comes from the cascade;
  \<^item> otherwise, with \<open>p\<close> the first project whose outcome is any other exception, the
    patch ends with that exception (a store error as the handler's callback turns it,
    any other exception as it is), the projects before \<open>p\<close> and \<open>p\<close> are attempted and
    no project after \<open>p\<close>, and the store is the one that these recomputations leave.
\<close>

theorem fan_out_continues_past_deleted_project:
  assumes "GET_SQL (db w) (PyStr key) = Some row"
    and "model_validate env row = Inr original"
    and "JsonPatch env body = Inr applied"
    and "applied (model_dump env original) = Inr updated_dict"
    and "all_unchanged (model_dump env original) updated_dict = Inr False"
    and "model_validate env updated_dict = Inr updated"
    and "PATCH_SQL (statement_params username original updated_dict) (others (db w)) = Inr (Suc n, d)"
    and "project_update_required settings original updated"
    and "iterate_set env (retrieve_affected_projects d (package_url updated)) = ids"
    and "\<forall>q \<in> set ids. \<forall>s. fst (update_component_score_for_project env q s) = outcome q"
    and "\<forall>e. handler_on_postgres_error env e \<noteq> PgExn ForeignKeyViolation"
  shows "(case dropWhile (\<lambda>q. tolerated (outcome q)) ids of
            [] \<Rightarrow>
              fst (patch env settings others username key body w)
                = (case GET_SQL (fold (\<lambda>q s. snd (update_component_score_for_project env q s)) ids d)
                          (package_url updated) of
                     None \<Rightarrow> Inl (ApiError ItemNotFound)
                   | Some record \<Rightarrow> Inr (Ok record))
            \<and> scored (trace (snd (patch env settings others username key body w)))
                = scored (trace w) @ ids
            \<and> warned (trace (snd (patch env settings others username key body w)))
                = warned (trace w) @ filter (\<lambda>q. outcome q \<noteq> None) ids
            \<and> db (snd (patch env settings others username key body w))
                = fold (\<lambda>q s. snd (update_component_score_for_project env q s)) ids d
          | p # rest \<Rightarrow>
              (\<exists>exc. outcome p = Some exc \<and> exc \<noteq> PgExn ForeignKeyViolation
                   \<and> fst (patch env settings others username key body w)
                       = Inl (case exc of PgExn e \<Rightarrow> handler_on_postgres_error env e | _ \<Rightarrow> exc))
            \<and> scored (trace (snd (patch env settings others username key body w)))
                = scored (trace w) @ takeWhile (\<lambda>q. tolerated (outcome q)) ids @ [p]
            \<and> warned (trace (snd (patch env settings others username key body w)))
                = warned (trace w)
                  @ filter (\<lambda>q. outcome q \<noteq> None) (takeWhile (\<lambda>q. tolerated (outcome q)) ids)
            \<and> db (snd (patch env settings others username key body w))
                = fold (\<lambda>q s. snd (update_component_score_for_project env q s))
                    (takeWhile (\<lambda>q. tolerated (outcome q)) ids @ [p]) d)"
proof -
  let ?w2 = "\<lparr>db = d, trace = trace w @ [Executed ''get-component'', Executed ''patch-component'']\<rparr>"
  from update_affected_projects_scores [of env "package_url updated" ?w2] assms(9)
  obtain evs where u: "update_affected_projects env (package_url updated) ?w2
                         = update_scores env ids (?w2\<lparr>trace := trace ?w2 @ evs\<rparr>)"
    and evs: "scored evs = []" "warned evs = []"
    by auto
  let ?w3 = "?w2\<lparr>trace := trace ?w2 @ evs\<rparr>"
  let ?c = "update_scores env ids ?w3"
  have p: "patch env settings others username key body w =
             (case ?c of (Some exc, w2) \<Rightarrow> (Inl exc, w2)
                       | (None, w2) \<Rightarrow> get_record (package_url updated) w2)"
    using patch_committed [where others = others and applied = applied and settings = settings,
        OF assms(1-7)] assms(8) u
    by simp
  note c = update_scores_outcome [OF assms(10,11), of ?w3]
  show ?thesis
  proof (cases "dropWhile (\<lambda>q. tolerated (outcome q)) ids")
    case Nil
    with c have f: "fst ?c = None"
      and s: "scored (trace (snd ?c)) = scored (trace w) @ ids"
      and wn: "warned (trace (snd ?c)) = warned (trace w) @ filter (\<lambda>q. outcome q \<noteq> None) ids"
      and dd: "db (snd ?c) = fold (\<lambda>q s. snd (update_component_score_for_project env q s)) ids d"
      using evs by simp_all
    from f have pp: "patch env settings others username key body w
                       = get_record (package_url updated) (snd ?c)"
      unfolding p by (cases ?c) simp
    have "fst (get_record (package_url updated) (snd ?c))
            = (case GET_SQL (db (snd ?c)) (package_url updated) of
                 None \<Rightarrow> Inl (ApiError ItemNotFound)
               | Some record \<Rightarrow> Inr (Ok record))"
      by (simp add: get_record_def Let_def record_event_def split: option.splits)
    then show ?thesis
      unfolding Nil pp using s wn dd by (simp add: get_record_trace get_record_db)
  next
    case (Cons q rest)
    with c obtain exc where o: "outcome q = Some exc" "exc \<noteq> PgExn ForeignKeyViolation"
      and f: "fst ?c = Some (case exc of PgExn e \<Rightarrow> handler_on_postgres_error env e | _ \<Rightarrow> exc)"
      by auto
    from c Cons evs have
      s: "scored (trace (snd ?c))
            = scored (trace w) @ takeWhile (\<lambda>q. tolerated (outcome q)) ids @ [q]"
      and wn: "warned (trace (snd ?c))
            = warned (trace w)
              @ filter (\<lambda>q. outcome q \<noteq> None) (takeWhile (\<lambda>q. tolerated (outcome q)) ids)"
      and dd: "db (snd ?c)
            = fold (\<lambda>q s. snd (update_component_score_for_project env q s))
                (takeWhile (\<lambda>q. tolerated (outcome q)) ids @ [q]) d"
      by simp_all
    from f have pp: "patch env settings others username key body w
             = (Inl (case exc of PgExn e \<Rightarrow> handler_on_postgres_error env e | _ \<Rightarrow> exc), snd ?c)"
      unfolding p by (cases ?c) simp
    show ?thesis unfolding Cons pp using o s wn dd by simp
  qed
qed

theorem fan_out_continues_past_deleted_project_witness:
  "(is_updated (fst (patch (example_env [(2, PgExn ForeignKeyViolation)]) scoring_settings
                       (\<lambda>d. d) ''bob'' ''pkg:generic/foo'' deprecate example_world))
    \<and> scored (trace (snd (patch (example_env [(2, PgExn ForeignKeyViolation)]) scoring_settings
                             (\<lambda>d. d) ''bob'' ''pkg:generic/foo'' deprecate example_world)))
        = [1, 2, 3]
    \<and> warned (trace (snd (patch (example_env [(2, PgExn ForeignKeyViolation)]) scoring_settings
                             (\<lambda>d. d) ''bob'' ''pkg:generic/foo'' deprecate example_world)))
        = [2]
    \<and> v1_project_facts (db (snd (patch (example_env [(2, PgExn ForeignKeyViolation)])
                                    scoring_settings (\<lambda>d. d) ''bob'' ''pkg:generic/foo''
                                    deprecate example_world)))
        = [(1, PyInt 100), (3, PyInt 100)])
   \<and> (fst (patch ((example_env [(2, PgExn (OtherPostgresError ''connection lost''))])
                    \<lparr>set_iteration := rev\<rparr>)
             scoring_settings (\<lambda>d. d) ''bob'' ''pkg:generic/foo'' deprecate example_world)
        = Inl (ApiError (DatabaseError ''Database Error''
                           (Some (OtherPostgresError ''connection lost''))))
    \<and> scored (trace (snd (patch ((example_env [(2, PgExn (OtherPostgresError ''connection lost''))])
                                    \<lparr>set_iteration := rev\<rparr>)
                             scoring_settings (\<lambda>d. d) ''bob'' ''pkg:generic/foo'' deprecate
                             example_world)))
        = [3, 2]
    \<and> warned (trace (snd (patch ((example_env [(2, PgExn (OtherPostgresError ''connection lost''))])
                                    \<lparr>set_iteration := rev\<rparr>)
                             scoring_settings (\<lambda>d. d) ''bob'' ''pkg:generic/foo'' deprecate
                             example_world)))
        = []
    \<and> v1_project_facts
        (db (snd (patch ((example_env [(2, PgExn (OtherPostgresError ''connection lost''))])
                           \<lparr>set_iteration := rev\<rparr>)
                    scoring_settings (\<lambda>d. d) ''bob'' ''pkg:generic/foo'' deprecate
                    example_world)))
        = [(3, PyInt 100)])"
proof -
  let ?env = "example_env [(2, PgExn ForeignKeyViolation)]"
  let ?lost = "PgExn (OtherPostgresError ''connection lost'')"
  let ?env' = "(example_env [(2, ?lost)])\<lparr>set_iteration := rev\<rparr>"
  have a: "apply_operations deprecate (model_dump ?env foo_component) = Inr deprecated_dict"
    and b: "all_unchanged (model_dump ?env foo_component) deprecated_dict = Inr False"
    by (simp_all add: example_reaches_write(3) example_deprecate)
  have ids: "iterate_set ?env (retrieve_affected_projects deprecated_db
                                 (package_url deprecated_component)) = [1, 2, 3]"
    by (simp add: example_affected)
  have out: "\<forall>q \<in> set [1, 2, 3]. \<forall>s. fst (update_component_score_for_project ?env q s)
                                       = map_of [(2, PgExn ForeignKeyViolation)] q"
    by (simp add: example_env_def scoring_failing_def)
  have h: "\<forall>e. handler_on_postgres_error ?env e \<noteq> PgExn ForeignKeyViolation"
    by (simp add: example_env_def)
  have fold: "fold (\<lambda>q s. snd (update_component_score_for_project ?env q s)) [1, 2, 3] deprecated_db
                = deprecated_db\<lparr>v1_project_facts := [(1, PyInt 100), (3, PyInt 100)]\<rparr>"
    by (simp add: example_env_def scoring_failing_def deprecated_db_def example_db_def)
  have rd: "GET_SQL (deprecated_db\<lparr>v1_project_facts := [(1, PyInt 100), (3, PyInt 100)]\<rparr>)
              (package_url deprecated_component)
            = Some (row_dict (foo_row\<lparr>col_status := PyStr ''Deprecated'',
                                      col_last_modified_at := PyInt 100,
                                      col_last_modified_by := PyStr ''bob''\<rparr>))"
    by (simp add: GET_SQL_def deprecated_db_def deprecated_component_def foo_component_def
        foo_row_def)
  have t: "trace example_world = []" by (simp add: example_world_def)
  note skip = fan_out_continues_past_deleted_project
    [where others = "\<lambda>d. d" and applied = "apply_operations deprecate"
       and settings = scoring_settings and outcome = "map_of [(2, PgExn ForeignKeyViolation)]",
     OF example_reaches_write(1) example_reaches_write(2) example_deprecate(1) a b
        example_deprecate(4) example_deprecate(5) example_required ids out h]
  have v: "model_validate ?env' (row_dict foo_row) = Inr foo_component"
    "JsonPatch ?env' deprecate = Inr (apply_operations deprecate)"
    "apply_operations deprecate (model_dump ?env' foo_component) = Inr deprecated_dict"
    "all_unchanged (model_dump ?env' foo_component) deprecated_dict = Inr False"
    "model_validate ?env' deprecated_dict = Inr deprecated_component"
    using example_reaches_write(2,3) [of "[(2, ?lost)]"] example_deprecate(1,4) [of "[(2, ?lost)]"]
      example_deprecate(2,3)
    by (simp_all add: example_env_def)
  have ids': "iterate_set ?env' (retrieve_affected_projects deprecated_db
                                   (package_url deprecated_component)) = [3, 2, 1]"
    by (simp add: example_affected(1) iterate_set_def example_env_def Let_def)
  have out': "\<forall>q \<in> set [3, 2, 1]. \<forall>s. fst (update_component_score_for_project ?env' q s)
                                        = map_of [(2, ?lost)] q"
    by (simp add: example_env_def scoring_failing_def)
  have h': "\<forall>e. handler_on_postgres_error ?env' e \<noteq> PgExn ForeignKeyViolation"
    by (simp add: example_env_def)
  have fold': "v1_project_facts
                 (snd (update_component_score_for_project (example_env [(2, ?lost)]) 2
                    (snd (update_component_score_for_project (example_env [(2, ?lost)]) 3
                            deprecated_db))))
                = [(3, PyInt 100)]"
    by (simp add: example_env_def scoring_failing_def deprecated_db_def example_db_def)
  have hc: "handler_on_postgres_error ?env' (OtherPostgresError ''connection lost'')
              = ApiError (DatabaseError ''Database Error''
                            (Some (OtherPostgresError ''connection lost'')))"
    by (simp add: example_env_def)
  note abort = fan_out_continues_past_deleted_project
    [where others = "\<lambda>d. d" and applied = "apply_operations deprecate"
       and settings = scoring_settings and outcome = "map_of [(2, ?lost)]",
     OF example_reaches_write(1) v(1) v(2) v(3) v(4) v(5) example_deprecate(5)
        example_required ids' out' h']
  have first: "is_updated (fst (patch ?env scoring_settings (\<lambda>d. d) ''bob'' ''pkg:generic/foo''
                                  deprecate example_world))
    \<and> scored (trace (snd (patch ?env scoring_settings (\<lambda>d. d) ''bob'' ''pkg:generic/foo''
                             deprecate example_world))) = [1, 2, 3]
    \<and> warned (trace (snd (patch ?env scoring_settings (\<lambda>d. d) ''bob'' ''pkg:generic/foo''
                             deprecate example_world))) = [2]
    \<and> v1_project_facts (db (snd (patch ?env scoring_settings (\<lambda>d. d) ''bob''
                                    ''pkg:generic/foo'' deprecate example_world)))
        = [(1, PyInt 100), (3, PyInt 100)]"
    using skip t unfolding fold rd by (simp add: tolerated_def)
  have second: "fst (patch ?env' scoring_settings (\<lambda>d. d) ''bob'' ''pkg:generic/foo'' deprecate
                       example_world)
        = Inl (ApiError (DatabaseError ''Database Error''
                           (Some (OtherPostgresError ''connection lost''))))
    \<and> scored (trace (snd (patch ?env' scoring_settings (\<lambda>d. d) ''bob'' ''pkg:generic/foo''
                             deprecate example_world))) = [3, 2]
    \<and> warned (trace (snd (patch ?env' scoring_settings (\<lambda>d. d) ''bob'' ''pkg:generic/foo''
                             deprecate example_world))) = []
    \<and> v1_project_facts (db (snd (patch ?env' scoring_settings (\<lambda>d. d) ''bob''
                                    ''pkg:generic/foo'' deprecate example_world)))
        = [(3, PyInt 100)]"
    using abort t hc by (simp add: tolerated_def fold')
  from first second show ?thesis by simp
qed

subsection \<open>No change, no write\<close>

text \<open>
  C1, as the code has it. A request reads the record, applies the operations to it and
  compares the result with it. It answers NotModified if and only if every field of the
  result equals the field of the record as read; it then leaves the store as it is and
  executes nothing but the read. This holds in every state of the store, so also in
  the state a first application of the same operations has left: the second application
  is NotModified exactly when the operations, applied to the record as it is read back,
  give that record again, which an Updated first application does not say.
\<close>

theorem patch_not_modified_when_every_field_equal:
  assumes "GET_SQL (db w) (PyStr key) = Some row"
    and "model_validate env row = Inr original"
    and "JsonPatch env body = Inr applied"
    and "applied (model_dump env original) = Inr updated_dict"
  shows "(fst (patch env settings others username key body w) = Inr NotModified
            \<longleftrightarrow> every_field_equal (model_dump env original) updated_dict)
       \<and> (every_field_equal (model_dump env original) updated_dict \<longrightarrow>
            patch env settings others username key body w
              = (Inr NotModified, record_event (Executed ''get-component'') w)
          \<and> db (snd (patch env settings others username key body w)) = db w
          \<and> executed (trace (snd (patch env settings others username key body w)))
              = executed (trace w) @ [''get-component''])"
proof (cases "all_unchanged (model_dump env original) updated_dict")
  case (Inl k)
  then have n: "\<not> every_field_equal (model_dump env original) updated_dict"
    using all_unchanged_iff [of "model_dump env original" updated_dict] by simp
  from Inl assms have "fst (patch env settings others username key body w) = Inl (KeyError k)"
    by (simp add: patch_def record_event_def)
  with n show ?thesis by simp
next
  case (Inr unchanged)
  show ?thesis
  proof (cases unchanged)
    case True
    with Inr have e: "every_field_equal (model_dump env original) updated_dict"
      using all_unchanged_iff [of "model_dump env original" updated_dict] by simp
    from True Inr assms have
      "patch env settings others username key body w
         = (Inr NotModified, record_event (Executed ''get-component'') w)"
      by (simp add: patch_def record_event_def)
    with e show ?thesis by (simp add: record_event_def)
  next
    case False
    with Inr have n: "\<not> every_field_equal (model_dump env original) updated_dict"
      using all_unchanged_iff [of "model_dump env original" updated_dict] by simp
    from False Inr have "all_unchanged (model_dump env original) updated_dict = Inr False"
      by simp
    from patch_reaches_persist [where others = others and settings = settings, OF assms this]
    have "fst (patch env settings others username key body w) \<noteq> Inr NotModified"
      by (simp add: patch_persist_never_not_modified)
    with n show ?thesis by simp
  qed
qed

theorem patch_not_modified_when_every_field_equal_witness:
  "is_updated (fst (patch (example_env []) scoring_settings (\<lambda>d. d) ''bob'' ''pkg:generic/foo''
                      rename example_world))
   \<and> patch (example_env []) scoring_settings (\<lambda>d. d) ''bob'' ''pkg:generic/foo'' rename
       (snd (patch (example_env []) scoring_settings (\<lambda>d. d) ''bob'' ''pkg:generic/foo''
               rename example_world))
       = (Inr NotModified,
          \<lparr>db = example_db\<lparr>v1_components := [renamed_row]\<rparr>,
             trace = [Executed ''get-component'', Executed ''patch-component'',
                      Executed ''get-component'', Executed ''get-component'']\<rparr>)
   \<and> fst (patch (example_env []) scoring_settings (\<lambda>d. d) ''bob'' ''pkg:generic/foo''
            copy_then_rename
            (snd (patch (example_env []) scoring_settings (\<lambda>d. d) ''bob'' ''pkg:generic/foo''
                    rename example_world)))
       \<noteq> Inr NotModified"
proof -
  let ?env = "example_env []"
  let ?w1 = "snd (patch ?env scoring_settings (\<lambda>d. d) ''bob'' ''pkg:generic/foo'' rename example_world)"
  let ?c = "foo_component\<lparr>name := ''bar''\<rparr>"
  have first: "is_updated (fst (patch ?env scoring_settings (\<lambda>d. d) ''bob'' ''pkg:generic/foo''
                                  rename example_world))"
    by code_simp
  have w1: "?w1 = \<lparr>db = example_db\<lparr>v1_components := [renamed_row]\<rparr>,
                    trace = [Executed ''get-component'', Executed ''patch-component'',
                             Executed ''get-component'']\<rparr>"
    by code_simp
  have g: "GET_SQL (db ?w1) (PyStr ''pkg:generic/foo'') = Some (row_dict renamed_row)"
    unfolding w1 by (simp add: GET_SQL_def renamed_row_def foo_row_def)
  have v: "model_validate ?env (row_dict renamed_row) = Inr ?c"
    by (simp add: example_env_def Component_model_validate_def row_dict_def renamed_row_def
        foo_row_def str_field_def status_field_def range_field_def opt_str_field_def
        package_url_field_def foo_component_def)
  have j: "JsonPatch ?env rename = Inr (apply_operations rename)"
    by (simp add: example_env_def JsonPatch_members_def rename_def known_operations_def)
  have a: "apply_operations rename (model_dump ?env ?c) = Inr (model_dump ?env ?c)"
    by (simp add: example_env_def Component_model_dump_def rename_def foo_component_def)
  have e: "every_field_equal (model_dump ?env ?c) (model_dump ?env ?c)"
    by (simp add: every_field_equal_def example_env_def Component_model_dump_def
        foo_component_def)
  note again = patch_not_modified_when_every_field_equal
    [where others = "\<lambda>d. d" and applied = "apply_operations rename" and settings = scoring_settings
       and username = "''bob''", OF g v j a]
  have j': "JsonPatch ?env copy_then_rename = Inr (apply_operations copy_then_rename)"
    by (simp add: example_env_def JsonPatch_members_def copy_then_rename_def known_operations_def)
  have a': "apply_operations copy_then_rename (model_dump ?env ?c)
              = Inr (AList.update ''icon_class'' (PyStr ''bar'') (model_dump ?env ?c))"
    by (simp add: example_env_def Component_model_dump_def copy_then_rename_def foo_component_def)
  have e': "\<not> every_field_equal (model_dump ?env ?c)
                 (AList.update ''icon_class'' (PyStr ''bar'') (model_dump ?env ?c))"
    by (simp add: every_field_equal_def example_env_def Component_model_dump_def
        foo_component_def)
  note other = patch_not_modified_when_every_field_equal
    [where others = "\<lambda>d. d" and applied = "apply_operations copy_then_rename"
       and settings = scoring_settings and username = "''bob''", OF g v j' a']
  have second: "patch ?env scoring_settings (\<lambda>d. d) ''bob'' ''pkg:generic/foo'' rename ?w1
                  = (Inr NotModified, record_event (Executed ''get-component'') ?w1)"
    using again e by simp
  have third: "fst (patch ?env scoring_settings (\<lambda>d. d) ''bob'' ''pkg:generic/foo''
                      copy_then_rename ?w1) \<noteq> Inr NotModified"
    using other e' by simp
  from first second third show ?thesis
    unfolding w1 by (simp add: record_event_def)
qed

text \<open>C1 as stated fails: operations whose result depends on the record they are
  applied to are not idempotent. Copying the name into the icon class and then replacing
  the name updates the record on the first application and again on the second.\<close>

theorem second_application_updates_again_counterexample:
  "is_updated (fst (patch (example_env []) scoring_settings (\<lambda>d. d) ''bob'' ''pkg:generic/foo''
                      copy_then_rename example_world))
   \<and> is_updated (fst (patch (example_env []) scoring_settings (\<lambda>d. d) ''bob'' ''pkg:generic/foo''
                        copy_then_rename
                        (snd (patch (example_env []) scoring_settings (\<lambda>d. d) ''bob''
                                ''pkg:generic/foo'' copy_then_rename example_world))))"
  by code_simp


subsection \<open>Operations that fail to apply\<close>

text \<open>
  C4 does not hold of the code: only the constructor of the patch is inside the
  \<^verbatim>\<open>try\<close> block that turns the exceptions of the jsonpatch library into
  \<^verbatim>\<open>errors.BadJsonPatch\<close>; \<^verbatim>\<open>patch.apply\<close> is outside it. A \<^verbatim>\<open>test\<close> operation that
  fails ends the request with the library's own exception, not with BadJsonPatch. The
  store is left as it was.
\<close>

theorem failed_test_is_not_a_bad_patch:
  "patch (example_env []) scoring_settings (\<lambda>d. d) ''bob'' ''pkg:generic/foo'' failing_test
     example_world
   = (Inl (JsonPatchExn JsonPatchTestFailed),
      \<lparr>db = example_db, trace = [Executed ''get-component'']\<rparr>)"
  by code_simp

subsection \<open>Results that fail validation\<close>

text \<open>
  C5, as the code has it. When the patched dictionary fails the validation of the
  component model, nothing is written: the store is unchanged and the request executes
  only the read of the record. The outcome is the BadRequest with the first violation's
  message, unless the comparison with the current record, which comes first, already
  ended the request: with NotModified when every field of the result equals the current
  one, or with the KeyError of a member the current record lacks.
\<close>

theorem invalid_result_is_never_written:
  assumes "GET_SQL (db w) (PyStr key) = Some row"
    and "model_validate env row = Inr original"
    and "JsonPatch env body = Inr applied"
    and "applied (model_dump env original) = Inr updated_dict"
    and "model_validate env updated_dict = Inl (msg # rest)"
  shows "fst (patch env settings others username key body w)
           = (case all_unchanged (model_dump env original) updated_dict of
                Inl k \<Rightarrow> Inl (KeyError k)
              | Inr True \<Rightarrow> Inr NotModified
              | Inr False \<Rightarrow> Inl (ApiError (BadRequest msg (msg # rest))))
       \<and> snd (patch env settings others username key body w)
           = record_event (Executed ''get-component'') w"
  using assms
  by (simp add: patch_def patch_persist_def record_event_def split: sum.splits bool.splits)


theorem invalid_result_is_never_written_witness:
  "patch (example_env []) scoring_settings (\<lambda>d. d) ''bob'' ''pkg:generic/foo'' bogus_status
     example_world
   = (Inl (ApiError (BadRequest not_a_status [not_a_status])),
      \<lparr>db = example_db, trace = [Executed ''get-component'']\<rparr>)"
proof -
  let ?env = "example_env []"
  let ?d = "AList.update ''status'' (PyStr ''Bogus'') foo_dict"
  have j: "JsonPatch ?env bogus_status = Inr (apply_operations bogus_status)"
    by (simp add: example_env_def JsonPatch_members_def bogus_status_def known_operations_def)
  have a: "apply_operations bogus_status (model_dump ?env foo_component) = Inr ?d"
    by (simp add: example_reaches_write(3) bogus_status_def foo_dict_def)
  have v: "model_validate ?env ?d = Inl (not_a_status # [])"
    by (simp add: example_env_def Component_model_validate_def foo_dict_def str_field_def
        status_field_def range_field_def opt_str_field_def package_url_field_def
        violations_def)
  have u: "all_unchanged (model_dump ?env foo_component) ?d = Inr False"
    by (simp add: example_reaches_write(3) foo_dict_def)
  note inst = invalid_result_is_never_written
    [where others = "\<lambda>d. d" and applied = "apply_operations bogus_status"
       and settings = scoring_settings and username = "''bob''",
     OF example_reaches_write(1) example_reaches_write(2) j a v]
  from inst u show ?thesis
    by (simp add: prod_eq_iff record_event_def example_world_def)
qed

text \<open>C5 as stated fails: removing the required member \<open>home_page\<close> gives a
  dictionary that fails validation, and the request answers NotModified, not a
  validation error, because the remaining fields all equal the current ones.\<close>

theorem invalid_result_not_modified_counterexample:
  "apply_operations remove_home_page foo_dict = Inr (AList.delete ''home_page'' foo_dict)
   \<and> Component_model_validate (AList.delete ''home_page'' foo_dict) = Inl [''Field required'']
   \<and> fst (patch (example_env []) scoring_settings (\<lambda>d. d) ''bob'' ''pkg:generic/foo''
            remove_home_page example_world) = Inr NotModified"
  by code_simp

subsection \<open>The conditional write\<close>

lemma get_record_executes:
  "executed (trace (snd (get_record key w))) = executed (trace w) @ [''get-component'']"
  by (simp add: get_record_trace)

text \<open>
  C6, as the code has it. The patched dictionary passed validation and has every
  parameter of the statement; the record read has the key \<open>current\<close>; the
  \<open>package_url\<close> of the patched dictionary is \<open>new_key\<close>, which is \<open>current\<close> or a key
  no record has; the score recomputation leaves the components table alone. Then:
  \<^item> when no record has the key \<open>current\<close> at the time of the write (other requests
    deleted it after the read), patch ends with \<^verbatim>\<open>errors.DatabaseError\<close>,
    \<^verbatim>\<open>No rows were returned from PATCH_SQL\<close>, having executed the statement once and
    changed nothing;
  \<^item> otherwise the record with the key \<open>current\<close>, and no other, gets the fields of the
    patched dictionary, including the new \<open>package_url\<close>, with \<open>last_modified_at\<close> from
    the clock and \<open>last_modified_by\<close> the acting user, and the statement is executed
    exactly once.
\<close>

theorem write_is_keyed_by_original_identity:
  assumes "GET_SQL (db w) (PyStr key) = Some row"
    and "model_validate env row = Inr original"
    and "JsonPatch env body = Inr applied"
    and "applied (model_dump env original) = Inr updated_dict"
    and "all_unchanged (model_dump env original) updated_dict = Inr False"
    and "model_validate env updated_dict = Inr updated"
    and "find (\<lambda>k. map_of (statement_params username original updated_dict) k = None)
           PATCH_SQL_params = None"
    and "package_url original = PyStr current"
    and "map_of updated_dict ''package_url'' = Some (PyStr new_key)"
    and "new_key = current
         \<or> new_key \<notin> col_package_url ` set (v1_components (others (db w)))"
    and "\<forall>p s. v1_components (snd (update_component_score_for_project env p s)) = v1_components s"
  shows "(current \<notin> col_package_url ` set (v1_components (others (db w))) \<longrightarrow>
            patch env settings others username key body w
              = (Inl (ApiError (DatabaseError ''No rows were returned from PATCH_SQL'' None)),
                 \<lparr>db = others (db w),
                    trace = trace w @ [Executed ''get-component'', Executed ''patch-component'']\<rparr>))
       \<and> (current \<in> col_package_url ` set (v1_components (others (db w))) \<longrightarrow>
            v1_components (db (snd (patch env settings others username key body w)))
              = map (\<lambda>r. if col_package_url r = current
                         then r\<lparr>col_package_url := new_key,
                                col_name := the (map_of updated_dict ''name''),
                                col_status := the (map_of updated_dict ''status''),
                                col_home_page := the (map_of updated_dict ''home_page''),
                                col_icon_class := the (map_of updated_dict ''icon_class''),
                                col_active_version := the (map_of updated_dict ''active_version''),
                                col_last_modified_at := PyInt (clock (others (db w))),
                                col_last_modified_by := PyStr username\<rparr>
                         else r)
                  (v1_components (others (db w)))
          \<and> length (filter (\<lambda>s. s = ''patch-component'')
                       (executed (trace (snd (patch env settings others username key body w)))))
              = Suc (length (filter (\<lambda>s. s = ''patch-component'') (executed (trace w)))))"
proof (intro conjI impI)
  let ?params = "statement_params username original updated_dict"
  let ?d = "others (db w)"
  let ?w1 = "record_event (Executed ''get-component'') w"
  have cur: "map_of ?params ''current_package_url'' = Some (PyStr current)"
    and pu: "map_of ?params ''package_url'' = Some (PyStr new_key)"
    using assms(8,9) by (simp_all add: statement_params_def update_conv')
  have p: "patch env settings others username key body w =
             patch_persist env settings others username original updated_dict ?w1"
    using assms(1-5) by (rule patch_reaches_persist)
  {
    assume "current \<notin> col_package_url ` set (v1_components ?d)"
    then have "PATCH_SQL ?params ?d = Inr (0, ?d)"
      using assms(7) cur by (simp add: PATCH_SQL_def)
    then show "patch env settings others username key body w
              = (Inl (ApiError (DatabaseError ''No rows were returned from PATCH_SQL'' None)),
                 \<lparr>db = others (db w),
                    trace = trace w @ [Executed ''get-component'', Executed ''patch-component'']\<rparr>)"
      unfolding p using assms(6) by (cases w) (simp add: patch_persist_def record_event_def)
  }
  assume hit: "current \<in> col_package_url ` set (v1_components ?d)"
  let ?new = "map (\<lambda>r. if col_package_url r = current
                       then set_columns ?params new_key (clock ?d) r else r) (v1_components ?d)"
  from hit have "filter (\<lambda>r. col_package_url r = current) (v1_components ?d) \<noteq> []"
    by (auto simp: filter_empty_conv)
  then obtain n where n: "length (filter (\<lambda>r. col_package_url r = current)
                                (v1_components ?d)) = Suc n"
    by (cases "filter (\<lambda>r. col_package_url r = current) (v1_components ?d)") auto
  have wr: "PATCH_SQL ?params ?d = Inr (Suc n, ?d\<lparr>v1_components := ?new\<rparr>)"
    using assms(7,10) cur pu hit n by (auto simp: PATCH_SQL_def)
  let ?w2 = "\<lparr>db = ?d\<lparr>v1_components := ?new\<rparr>,
              trace = trace w @ [Executed ''get-component'', Executed ''patch-component'']\<rparr>"
  let ?c = "if project_update_required settings original updated
            then update_affected_projects env (package_url updated) ?w2 else (None, ?w2)"
  have pc: "patch env settings others username key body w =
              (case ?c of (Some exc, w2) \<Rightarrow> (Inl exc, w2)
                        | (None, w2) \<Rightarrow> get_record (package_url updated) w2)"
    by (rule patch_committed [where others = others and applied = applied, OF assms(1-6) wr])
  have kc: "v1_components (db (snd ?c)) = ?new"
    by (simp add: update_affected_projects_keeps_components [OF assms(11)])
  have ec: "filter (\<lambda>s. s = ''patch-component'') (executed (trace (snd ?c)))
              = filter (\<lambda>s. s = ''patch-component'') (executed (trace w)) @ [''patch-component'']"
    by (simp add: update_affected_projects_executes)
  have cols: "set_columns ?params new_key (clock ?d) =
                (\<lambda>r. r\<lparr>col_package_url := new_key,
                        col_name := the (map_of updated_dict ''name''),
                        col_status := the (map_of updated_dict ''status''),
                        col_home_page := the (map_of updated_dict ''home_page''),
                        col_icon_class := the (map_of updated_dict ''icon_class''),
                        col_active_version := the (map_of updated_dict ''active_version''),
                        col_last_modified_at := PyInt (clock ?d),
                        col_last_modified_by := PyStr username\<rparr>)"
    by (simp add: set_columns_def statement_params_def update_conv' fun_eq_iff)
  show "v1_components (db (snd (patch env settings others username key body w)))
              = map (\<lambda>r. if col_package_url r = current
                         then r\<lparr>col_package_url := new_key,
                                col_name := the (map_of updated_dict ''name''),
                                col_status := the (map_of updated_dict ''status''),
                                col_home_page := the (map_of updated_dict ''home_page''),
                                col_icon_class := the (map_of updated_dict ''icon_class''),
                                col_active_version := the (map_of updated_dict ''active_version''),
                                col_last_modified_at := PyInt (clock (others (db w))),
                                col_last_modified_by := PyStr username\<rparr>
                         else r)
                  (v1_components (others (db w)))"
    unfolding pc using kc cols
    by (cases ?c) (auto simp: get_record_db split: option.splits)
  show "length (filter (\<lambda>s. s = ''patch-component'')
                       (executed (trace (snd (patch env settings others username key body w)))))
              = Suc (length (filter (\<lambda>s. s = ''patch-component'') (executed (trace w))))"
    unfolding pc using ec
    by (cases ?c) (auto simp: get_record_executes split: option.splits)
qed

theorem write_is_keyed_by_original_identity_witness:
  "v1_components (db (snd (patch (example_env []) scoring_settings (\<lambda>d. d) ''bob''
                             ''pkg:generic/foo'' rekey example_world)))
     = [rekeyed_row]
   \<and> col_package_url rekeyed_row = ''pkg:generic/baz''
   \<and> v1_components (db (snd (patch (example_env []) scoring_settings (\<lambda>d. d) ''bob''
                               ''pkg:generic/foo'' deprecate example_world)))
       = [foo_row\<lparr>col_status := PyStr ''Deprecated'', col_last_modified_at := PyInt 100,
                   col_last_modified_by := PyStr ''bob''\<rparr>]
   \<and> patch (example_env []) scoring_settings (\<lambda>d. d\<lparr>v1_components := []\<rparr>) ''bob''
        ''pkg:generic/foo'' rekey example_world
     = (Inl (ApiError (DatabaseError ''No rows were returned from PATCH_SQL'' None)),
        \<lparr>db = example_db\<lparr>v1_components := []\<rparr>,
           trace = [Executed ''get-component'', Executed ''patch-component'']\<rparr>)"
proof -
  let ?env = "example_env []"
  let ?rekeyed_dict = "AList.update ''package_url'' (PyStr ''pkg:generic/baz'') foo_dict"
  have a: "apply_operations deprecate (model_dump ?env foo_component) = Inr deprecated_dict"
    and b: "all_unchanged (model_dump ?env foo_component) deprecated_dict = Inr False"
    by (simp_all add: example_reaches_write(3) example_deprecate)
  have c: "find (\<lambda>k. map_of (statement_params ''bob'' foo_component deprecated_dict) k = None)
             PATCH_SQL_params = None"
    by (simp add: statement_params_def deprecated_dict_def foo_dict_def PATCH_SQL_params_def)
  have k: "map_of deprecated_dict ''package_url'' = Some (PyStr ''pkg:generic/foo'')"
    by (simp add: deprecated_dict_def foo_dict_def)
  have o: "package_url foo_component = PyStr ''pkg:generic/foo''"
    by (simp add: foo_component_def)
  have f1: "''pkg:generic/foo'' = ''pkg:generic/foo''
            \<or> ''pkg:generic/foo'' \<notin> col_package_url ` set (v1_components (db example_world))"
    by simp
  have q: "\<forall>p s. v1_components (snd (update_component_score_for_project ?env p s)) = v1_components s"
    by (simp add: example_env_def scoring_failing_def)
  note same = write_is_keyed_by_original_identity
    [where others = "\<lambda>d. d" and applied = "apply_operations deprecate"
       and settings = scoring_settings,
     OF example_reaches_write(1) example_reaches_write(2) example_deprecate(1) a b
        example_deprecate(4) c o k f1 q]
  have j': "JsonPatch ?env rekey = Inr (apply_operations rekey)"
    by (simp add: example_env_def JsonPatch_members_def rekey_def known_operations_def)
  have a': "apply_operations rekey (model_dump ?env foo_component) = Inr ?rekeyed_dict"
    by (simp add: example_reaches_write(3) rekey_def foo_dict_def)
  have b': "all_unchanged (model_dump ?env foo_component) ?rekeyed_dict = Inr False"
    by (simp add: example_reaches_write(3) foo_dict_def)
  have v': "model_validate ?env ?rekeyed_dict
              = Inr (foo_component\<lparr>package_url := PyStr ''pkg:generic/baz''\<rparr>)"
    by (simp add: example_env_def Component_model_validate_def foo_dict_def str_field_def
        status_field_def range_field_def opt_str_field_def package_url_field_def
        foo_component_def)
  have c': "find (\<lambda>k. map_of (statement_params ''bob'' foo_component ?rekeyed_dict) k = None)
              PATCH_SQL_params = None"
    by (simp add: statement_params_def foo_dict_def PATCH_SQL_params_def)
  have k': "map_of ?rekeyed_dict ''package_url'' = Some (PyStr ''pkg:generic/baz'')"
    by (simp add: foo_dict_def)
  have f2: "''pkg:generic/baz'' = ''pkg:generic/foo''
            \<or> ''pkg:generic/baz'' \<notin> col_package_url ` set (v1_components (db example_world))"
    and f3: "''pkg:generic/baz'' = ''pkg:generic/foo''
            \<or> ''pkg:generic/baz'' \<notin> col_package_url `
                 set (v1_components (db example_world\<lparr>v1_components := []\<rparr>))"
    by (simp_all add: example_world_def example_db_def foo_row_def)
  note changed = write_is_keyed_by_original_identity
    [where others = "\<lambda>d. d" and applied = "apply_operations rekey"
       and settings = scoring_settings,
     OF example_reaches_write(1) example_reaches_write(2) j' a' b' v' c' o k' f2 q]
  note gone = write_is_keyed_by_original_identity
    [where others = "\<lambda>d. d\<lparr>v1_components := []\<rparr>" and applied = "apply_operations rekey"
       and settings = scoring_settings,
     OF example_reaches_write(1) example_reaches_write(2) j' a' b' v' c' o k' f3 q]
  have m: "map_of deprecated_dict ''name'' = Some (PyStr ''foo'')"
    "map_of deprecated_dict ''status'' = Some (PyStr ''Deprecated'')"
    "map_of deprecated_dict ''home_page'' = Some PyNone"
    "map_of deprecated_dict ''icon_class'' = Some (PyStr ''fas fa-save'')"
    "map_of deprecated_dict ''active_version'' = Some PyNone"
    by (simp_all add: deprecated_dict_def foo_dict_def)
  have m': "map_of ?rekeyed_dict ''name'' = Some (PyStr ''foo'')"
    "map_of ?rekeyed_dict ''status'' = Some (PyStr ''Active'')"
    "map_of ?rekeyed_dict ''home_page'' = Some PyNone"
    "map_of ?rekeyed_dict ''icon_class'' = Some (PyStr ''fas fa-save'')"
    "map_of ?rekeyed_dict ''active_version'' = Some PyNone"
    by (simp_all add: foo_dict_def)
  have first: "v1_components (db (snd (patch ?env scoring_settings (\<lambda>d. d) ''bob''
                             ''pkg:generic/foo'' rekey example_world))) = [rekeyed_row]"
    using changed m'
    by (simp add: example_world_def example_db_def foo_row_def rekeyed_row_def)
  have second: "v1_components (db (snd (patch ?env scoring_settings (\<lambda>d. d) ''bob''
                               ''pkg:generic/foo'' deprecate example_world)))
       = [foo_row\<lparr>col_status := PyStr ''Deprecated'', col_last_modified_at := PyInt 100,
                   col_last_modified_by := PyStr ''bob''\<rparr>]"
    using same m
    by (simp add: example_world_def example_db_def foo_row_def)
  have third: "patch ?env scoring_settings (\<lambda>d. d\<lparr>v1_components := []\<rparr>) ''bob''
        ''pkg:generic/foo'' rekey example_world
     = (Inl (ApiError (DatabaseError ''No rows were returned from PATCH_SQL'' None)),
        \<lparr>db = example_db\<lparr>v1_components := []\<rparr>,
           trace = [Executed ''get-component'', Executed ''patch-component'']\<rparr>)"
    using gone by (simp add: example_world_def)
  from first second third show ?thesis by (simp add: rekeyed_row_def)
qed

text \<open>C6 as stated fails: when the record is deleted between the read and the write, the
  write affects no row and the patch ends with \<^verbatim>\<open>errors.DatabaseError\<close>, the error
  that \<^verbatim>\<open>imbi/models.py\<close> raises when a query fails (here by \<open>load\<close>), which is a
  server error and not a conflict signal; the handlers have no error of their own for
  a concurrent modification.\<close>

theorem zero_rows_is_a_database_error_counterexample:
  "fst (patch (example_env []) scoring_settings (\<lambda>d. d\<lparr>v1_components := []\<rparr>) ''bob''
          ''pkg:generic/foo'' deprecate example_world)
     = Inl (ApiError (DatabaseError ''No rows were returned from PATCH_SQL'' None))
   \<and> kind_of (DatabaseError ''No rows were returned from PATCH_SQL'' None) \<noteq> ConflictSignal
   \<and> kind_of (DatabaseError ''No rows were returned from PATCH_SQL'' None) = ServerError
   \<and> (load (Inl (OtherPostgresError ''timeout'')) :: exn + Namespace option)
       = Inl (ApiError (DatabaseError ''Error loading type'' (Some (OtherPostgresError ''timeout''))))"
  by code_simp

section \<open>Properties of the project aggregate\<close>

lemma first_failure_Some:
  assumes "first_failure completion failures = Some e"
  shows "Some e \<in> set failures"
proof -
  let ?is = "filter (\<lambda>i. i < length failures \<and> failures ! i \<noteq> None) completion"
  from assms obtain i rest where f: "?is = i # rest" and e: "failures ! i = Some e"
    by (auto simp: first_failure_def split: list.splits)
  from f have "i \<in> set ?is" by simp
  then have "i < length failures" by simp
  with e show ?thesis by (metis nth_mem)
qed

lemma first_failure_None:
  assumes "\<forall>f \<in> set failures. f = None"
  shows "first_failure completion failures = None"
proof -
  from assms have "filter (\<lambda>i. i < length failures \<and> failures ! i \<noteq> None) completion = []"
    by (auto simp: filter_empty_conv)
  then show ?thesis by (simp add: first_failure_def)
qed

lemma failure_None_iff: "failure r = None \<longleftrightarrow> (\<exists>x. r = Inr x)"
  by (cases r) (simp_all add: failure_def)

lemma example_no_project: "Project_SQL (example_application (Inr [])) 8 = Inr None"
  by (simp add: example_application_def)

lemma example_links_fail: "sub_load_failures 7 example_project_row (example_application (Inl (OtherPostgresError ''timeout'')))
              = [None, None, None, Some (ApiError (DatabaseError ''Error loading type collection for 7''
                          (Some (OtherPostgresError ''timeout'')))), None, None, None, None]"
    by (simp add: sub_load_failures_def namespace_load_def project_type_load_def
        project_facts_def project_links_def project_urls_def project_identifiers_def
        project_components_def project_dependencies_def load_def load_collection_def
        failure_def example_application_def str_int_def)

text \<open>
  C9. \<open>project\<close> returns no project (the callers' not found) when the root row does not
  exist. When it exists, the result is an aggregate only if none of the eight sub-loads
  (namespace, type, facts, links, urls, identifiers, components, dependencies) failed;
  if one or more failed, the result is the error of one of the failed sub-loads, never
  an aggregate; and if the failures all carry one error \<open>e\<close> (in particular when
  exactly one sub-load failed), the result is \<open>e\<close>, in whatever order the sub-loads
  complete.
\<close>

theorem project_load_is_all_or_nothing:
  assumes "Project_SQL app pid = Inr root"
  shows "(root = None \<longrightarrow> project pid app completion = Inr None)
       \<and> (\<forall>values'. root = Some values' \<longrightarrow>
            ((\<forall>f \<in> set (sub_load_failures pid values' app). f = None) \<longrightarrow>
               (\<exists>p. project pid app completion = Inr (Some p)))
          \<and> ((\<exists>f \<in> set (sub_load_failures pid values' app). f \<noteq> None) \<longrightarrow>
               (\<exists>e. project pid app completion = Inl e
                    \<and> Some e \<in> set (sub_load_failures pid values' app)))
          \<and> (\<forall>e. Some e \<in> set (sub_load_failures pid values' app)
                   \<and> (\<forall>f \<in> set (sub_load_failures pid values' app). f = None \<or> f = Some e)
                 \<longrightarrow> project pid app completion = Inl e))"
proof (intro conjI allI impI)
  assume "root = None"
  with assms show "project pid app completion = Inr None" by (simp add: project_def)
next
  fix values' assume r: "root = Some values'"
  let ?fs = "sub_load_failures pid values' app"
  have p: "project pid app completion =
     (case first_failure completion ?fs of
        Some e \<Rightarrow> Inl e
      | None \<Rightarrow>
         (case namespace_load (row_namespace_id values') app of Inl e \<Rightarrow> Inl e | Inr r0 \<Rightarrow>
          case project_type_load (row_project_type_id values') app of Inl e \<Rightarrow> Inl e | Inr r1 \<Rightarrow>
          case project_facts pid app of Inl e \<Rightarrow> Inl e | Inr r2 \<Rightarrow>
          case project_links pid app of Inl e \<Rightarrow> Inl e | Inr r3 \<Rightarrow>
          case project_urls pid app of Inl e \<Rightarrow> Inl e | Inr r4 \<Rightarrow>
          case project_identifiers pid app of Inl e \<Rightarrow> Inl e | Inr r5 \<Rightarrow>
          case project_components pid app of Inl e \<Rightarrow> Inl e | Inr r6 \<Rightarrow>
          case project_dependencies pid app of Inl e \<Rightarrow> Inl e | Inr r7 \<Rightarrow>
            Inr (Some (assemble values' r0 r1 r2 r3 r4 r5 r6 r7))))"
    using assms r by (simp add: project_def)
  have fail: "\<exists>e. project pid app completion = Inl e \<and> Some e \<in> set ?fs"
    if "\<exists>f \<in> set ?fs. f \<noteq> None"
  proof (cases "first_failure completion ?fs")
    case (Some e)
    then show ?thesis unfolding p using first_failure_Some [OF Some] by simp
  next
    case None
    from that show ?thesis unfolding p None
      by (auto simp: sub_load_failures_def failure_def split: sum.splits)
  qed
  {
    assume ok: "\<forall>f \<in> set ?fs. f = None"
    then have "first_failure completion ?fs = None" by (rule first_failure_None)
    moreover from ok have
      "\<exists>x. namespace_load (row_namespace_id values') app = Inr x"
      "\<exists>x. project_type_load (row_project_type_id values') app = Inr x"
      "\<exists>x. project_facts pid app = Inr x"
      "\<exists>x. project_links pid app = Inr x"
      "\<exists>x. project_urls pid app = Inr x"
      "\<exists>x. project_identifiers pid app = Inr x"
      "\<exists>x. project_components pid app = Inr x"
      "\<exists>x. project_dependencies pid app = Inr x"
      by (simp_all add: sub_load_failures_def failure_None_iff)
    ultimately show "\<exists>p. project pid app completion = Inr (Some p)"
      unfolding p by auto
  }
  {
    assume "\<exists>f \<in> set ?fs. f \<noteq> None"
    then show "\<exists>e. project pid app completion = Inl e \<and> Some e \<in> set ?fs" by (rule fail)
  }
  fix e assume e: "Some e \<in> set ?fs \<and> (\<forall>f \<in> set ?fs. f = None \<or> f = Some e)"
  then have "\<exists>f \<in> set ?fs. f \<noteq> None" by auto
  from fail [OF this] obtain e' where "project pid app completion = Inl e'" "Some e' \<in> set ?fs"
    by blast
  with e show "project pid app completion = Inl e" by auto
qed

theorem project_load_is_all_or_nothing_witness:
  "project 8 (example_application (Inr [])) [0, 1, 2, 3, 4, 5, 6, 7] = Inr None
   \<and> project 7 (example_application (Inl (OtherPostgresError ''timeout''))) [7, 6, 5, 4, 3, 2, 1, 0]
       = Inl (ApiError (DatabaseError ''Error loading type collection for 7''
                          (Some (OtherPostgresError ''timeout''))))"
proof -
  let ?bad = "example_application (Inl (OtherPostgresError ''timeout''))"
  let ?e = "ApiError (DatabaseError ''Error loading type collection for 7''
                          (Some (OtherPostgresError ''timeout'')))"
  have r7: "Project_SQL ?bad 7 = Inr (Some example_project_row)"
    by (simp add: example_application_def)
  from project_load_is_all_or_nothing [OF example_no_project, of "[0, 1, 2, 3, 4, 5, 6, 7]"]
  have a: "project 8 (example_application (Inr [])) [0, 1, 2, 3, 4, 5, 6, 7] = Inr None"
    by simp
  from project_load_is_all_or_nothing [OF r7, of "[7, 6, 5, 4, 3, 2, 1, 0]"]
  have "\<forall>e. Some e \<in> set (sub_load_failures 7 example_project_row ?bad)
             \<and> (\<forall>f \<in> set (sub_load_failures 7 example_project_row ?bad). f = None \<or> f = Some e)
           \<longrightarrow> project 7 ?bad [7, 6, 5, 4, 3, 2, 1, 0] = Inl e"
    by blast
  then have "Some ?e \<in> set (sub_load_failures 7 example_project_row ?bad)
             \<and> (\<forall>f \<in> set (sub_load_failures 7 example_project_row ?bad). f = None \<or> f = Some ?e)
           \<longrightarrow> project 7 ?bad [7, 6, 5, 4, 3, 2, 1, 0] = Inl ?e"
    by (rule spec)
  then have b: "project 7 ?bad [7, 6, 5, 4, 3, 2, 1, 0] = Inl ?e"
    unfolding example_links_fail by simp
  from a b show ?thesis by simp
qed

end
